theory Spec2Isabelle
  imports Complex_Main "HOL-Library.Sublist"
begin

section \<open>JavaScript values used by the application\<close>

text \<open>
  A JavaScript string is a sequence of UTF-16 code units.  It is modelled by \<^typ>\<open>string\<close>,
  one \<^typ>\<open>char\<close> per code unit, which covers the code units \<open>0x00 .. 0xFF\<close>.  The
  functions below are the parts of the string library the source calls, restricted to that
  range: of the white space and line terminators that \<^verbatim>\<open>String.prototype.trim\<close> removes,
  TAB, LF, VT, FF, CR, SPACE and NBSP lie in the range; of the line terminators that a
  regular expression's \<^verbatim>\<open>.\<close> refuses, LF and CR do.

  A thrown exception is a value of type \<open>exn\<close>; code that can throw returns
  \<open>exn + 'a\<close>, with \<open>Inl\<close> for the exception.
\<close>

datatype exn = TypeError string | Error string | Rejected string

definition isWhiteSpace :: "char \<Rightarrow> bool" where
  "isWhiteSpace c \<longleftrightarrow>
     c \<in> set [CHR 0x09, CHR 0x0A, CHR 0x0B, CHR 0x0C, CHR 0x0D, CHR 0x20, CHR 0xA0]"

definition isLineTerminator :: "char \<Rightarrow> bool" where
  "isLineTerminator c \<longleftrightarrow> c = CHR 0x0A \<or> c = CHR 0x0D"

text \<open>\<^verbatim>\<open>s.trim()\<close>\<close>

definition trim :: "string \<Rightarrow> string" where
  "trim s = rev (dropWhile isWhiteSpace (rev (dropWhile isWhiteSpace s)))"

text \<open>
  \<^verbatim>\<open>s.split(c)\<close> for a separator of one code unit: \<open>n\<close> separators give \<open>n + 1\<close>
  pieces, and the empty string gives one empty piece.
\<close>

fun split :: "char \<Rightarrow> string \<Rightarrow> string list" where
  "split c [] = [ [] ]"
| "split c (x # xs) =
     (if x = c then [] # split c xs
      else (case split c xs of [] \<Rightarrow> [ [x] ] | y # ys \<Rightarrow> (x # y) # ys))"

text \<open>\<^verbatim>\<open>xs.join(sep)\<close>\<close>

fun join :: "string \<Rightarrow> string list \<Rightarrow> string" where
  "join sep [] = []"
| "join sep [x] = x"
| "join sep (x # y # ys) = x @ sep @ join sep (y # ys)"

text \<open>\<^verbatim>\<open>x || ''\<close> for \<open>x\<close> a string or \<^verbatim>\<open>null\<close>/\<^verbatim>\<open>undefined\<close>: the empty string is falsy too.\<close>

definition orElse :: "string option \<Rightarrow> string \<Rightarrow> string" where
  "orElse x d = (case x of None \<Rightarrow> d | Some v \<Rightarrow> if v = [] then d else v)"


section \<open>The table renderer of the test screen\<close>

text \<open>
  \<^verbatim>\<open>TableRenderer\<close> (TestScreen.tsx) turns the raw chart data of a table into a table.
  What it renders is one of: the paragraph "Table data is invalid.", the table with its
  title, header cells and body rows, or the paragraph of the \<^verbatim>\<open>catch\<close> branch.
\<close>

datatype rendering =
    InvalidTable
  | TableView string "string list" "string list list"
  | TableError

text \<open>The body of the \<^verbatim>\<open>try\<close> block.  \<open>rows[0]\<close> is read only when \<open>rows\<close> has two entries
  or more.\<close>

definition TableRenderer_try :: "string \<Rightarrow> string \<Rightarrow> exn + rendering" where
  "TableRenderer_try data title =
     (let rows = filter (\<lambda>row. trim row \<noteq> []) (split (CHR 0x0A) data) in
      if length rows < 2 then Inr InvalidTable
      else (case rows of
              [] \<Rightarrow> Inl (TypeError ''rows[0] is undefined'')
            | r0 # rest \<Rightarrow>
                (let headers = map trim (split (CHR '','') r0);
                     bodyRows = map (\<lambda>row. map trim (split (CHR '','') row)) rest
                 in Inr (TableView title headers bodyRows))))"

definition TableRenderer :: "string \<Rightarrow> string \<Rightarrow> rendering" where
  "TableRenderer data title =
     (case TableRenderer_try data title of Inl e \<Rightarrow> TableError | Inr v \<Rightarrow> v)"

text \<open>The lines of the input that are not empty, as the specification counts them.\<close>

definition nonEmptyLines :: "string \<Rightarrow> string list" where
  "nonEmptyLines data = filter (\<lambda>row. row \<noteq> []) (split (CHR 0x0A) data)"


text \<open>
  A table written out as chart data.  A cell is written as its content between two runs
  of white space without line feed; the content has no comma and no line feed, and
  neither starts nor ends with white space.  The cells of a row are joined by commas,
  the rows by line feeds.  Every string is the text of such a table.  A blank line is
  one of white space only.
\<close>

type_synonym cell = "string \<times> string \<times> string"

definition cellText :: "cell \<Rightarrow> string" where
  "cellText c = (case c of (before, inner, after) \<Rightarrow> before @ inner @ after)"

definition cellContent :: "cell \<Rightarrow> string" where
  "cellContent c = (case c of (before, inner, after) \<Rightarrow> inner)"

definition padding :: "string \<Rightarrow> bool" where
  "padding s \<longleftrightarrow> list_all (\<lambda>x. isWhiteSpace x \<and> x \<noteq> CHR 0x0A) s"

definition cellOk :: "cell \<Rightarrow> bool" where
  "cellOk c =
     (case c of (before, inner, after) \<Rightarrow>
        padding before \<and> padding after
        \<and> CHR '','' \<notin> set inner \<and> CHR 0x0A \<notin> set inner
        \<and> (inner = [] \<or> \<not> isWhiteSpace (hd inner) \<and> \<not> isWhiteSpace (last inner)))"

definition rowText :: "cell list \<Rightarrow> string" where
  "rowText r = join '','' (map cellText r)"

definition tableText :: "cell list list \<Rightarrow> string" where
  "tableText t = join ''\<newline>'' (map rowText t)"

definition blank :: "string \<Rightarrow> bool" where
  "blank s \<longleftrightarrow> list_all isWhiteSpace s"


section \<open>The video id of the test screen\<close>

text \<open>
  The \<^verbatim>\<open>URL\<close> class belongs to the browser.  A parsed URL is the record of the three
  properties the source reads; the constructor \<^verbatim>\<open>new URL(s)\<close>, which throws a
  \<^verbatim>\<open>TypeError\<close> on a string that is not a URL, is a parameter of the model.
  \<^verbatim>\<open>searchParams.get(name)\<close> returns the value of the first pair with that name, or
  \<^verbatim>\<open>null\<close>.
\<close>

record URL =
  hostname :: string
  pathname :: string
  searchParams :: "(string \<times> string) list"

definition searchParams_get :: "URL \<Rightarrow> string \<Rightarrow> string option" where
  "searchParams_get url name = map_of (searchParams url) name"

text \<open>The body of the \<^verbatim>\<open>try\<close> block of \<^verbatim>\<open>videoId\<close>, then the \<^verbatim>\<open>useMemo\<close> callback
  with its \<^verbatim>\<open>catch\<close>.  \<^verbatim>\<open>pathname.slice(1)\<close> drops the first code unit.\<close>

definition videoId_try :: "(string \<Rightarrow> exn + URL) \<Rightarrow> string \<Rightarrow> exn + string" where
  "videoId_try newURL videoUrl =
     (case newURL videoUrl of
        Inl e \<Rightarrow> Inl e
      | Inr url \<Rightarrow>
          if hostname url = ''youtu.be'' then Inr (drop 1 (pathname url))
          else Inr (orElse (searchParams_get url ''v'') []))"

definition videoId :: "(string \<Rightarrow> exn + URL) \<Rightarrow> string \<Rightarrow> exn + string" where
  "videoId newURL videoUrl =
     (case videoId_try newURL videoUrl of Inl e \<Rightarrow> Inr [] | Inr v \<Rightarrow> Inr v)"


section \<open>The data model (types.ts)\<close>

text \<open>
  A JSON number is a double; the scores of an evaluation are read from JSON, so they are
  never NaN, and they are finite unless the number read overflows, a case that is left
  out.  A finite double is a rational number.  The source only compares scores and prints
  them; comparing two finite doubles agrees with comparing their rational values, and
  \<open>7.5\<close> is a double.  \<^verbatim>\<open>TestType\<close> is the union of the five strings that the buttons of
  the welcome screen pass.  Field names that two interfaces share carry a prefix.
\<close>

datatype TestType = Full | ListeningOnly | ReadingOnly | WritingOnly | SpeakingOnly

datatype TestSection = Listening | Reading | Writing | Speaking

datatype AppState = Welcome | Generating | Test | Evaluating | Results

datatype ChartType = BarChart | LineChart | PieChart | Table

datatype QuestionType = Introduction | CueCard | Discussion

record ICueCard =
  topic :: string
  points :: "string list"

record IQuestion =
  part :: int
  q_type :: QuestionType
  question :: string
  cueCard :: "ICueCard option"

record ICriterion =
  criterion :: string
  score :: rat
  feedback :: string

record IImprovedSpeakingAnswer =
  isa_question :: string
  improvedAnswer :: string

record IImprovedAnswers =
  writingTask1 :: string
  writingTask2 :: string
  ia_speaking :: "IImprovedSpeakingAnswer list"

record IEvaluation =
  overallBandScore :: rat
  detailedScores :: "ICriterion list"
  summary :: string
  improvedAnswers :: IImprovedAnswers

record IPracticeItem =
  area :: string
  title :: string
  description :: string
  exercise :: string

datatype ListeningQuestionType = LMultipleChoice | LShortAnswer

record IListeningQuestion =
  lq_question :: string
  lq_type :: ListeningQuestionType
  lq_options :: "string list option"

datatype ReadingQuestionType = RMultipleChoice | RShortAnswer | RTrueFalseNotGiven

record IReadingQuestion =
  rq_question :: string
  rq_type :: ReadingQuestionType
  rq_options :: "string list option"

record IListeningSection =
  l_questions :: "IListeningQuestion list"

record IReadingSection =
  r_transcript :: string
  r_questions :: "IReadingQuestion list"

record IChartData =
  cd_type :: ChartType
  cd_title :: string
  cd_data :: string

record IWritingTask1 =
  prompt :: string
  chartData :: IChartData
  chartImage :: "string option"

record IWritingSection =
  task1 :: IWritingTask1
  task2 :: string

record IComprehensiveTest =
  listening :: IListeningSection
  reading :: IReadingSection
  writing :: IWritingSection
  speaking :: "IQuestion list"

text \<open>
  The answers of the test screen, \<^verbatim>\<open>{listening: {}, reading: {}, writing: {task1, task2},
  speaking: []}\<close>: the objective sections map a question index to the text typed, the
  speaking section is the list of \<^verbatim>\<open>{question, answer}\<close> pairs in the order they were added.
\<close>

record ISpeakingAnswer =
  sa_question :: string
  sa_answer :: string

record IWritingAnswers =
  wa_task1 :: string
  wa_task2 :: string

record Answers =
  ans_listening :: "nat \<rightharpoonup> string"
  ans_reading :: "nat \<rightharpoonup> string"
  ans_writing :: IWritingAnswers
  ans_speaking :: "ISpeakingAnswer list"


section \<open>The welcome screen\<close>

text \<open>
  The regular expression of \<^verbatim>\<open>handleStart\<close> has no flags, no back-references and no
  look-around, so \<^verbatim>\<open>test\<close> succeeds exactly when some way of matching the pattern
  consumes the whole string.  A pattern is modelled by the function that maps a string to
  the remainders left by every way of matching a prefix of it.
\<close>

type_synonym matcher = "string \<Rightarrow> string list"

definition lit :: "string \<Rightarrow> matcher" where
  "lit p s = (if prefix p s then [drop (length p) s] else [])"

definition opt :: "matcher \<Rightarrow> matcher" where
  "opt m s = m s @ [s]"

definition seq :: "matcher \<Rightarrow> matcher \<Rightarrow> matcher" where
  "seq m1 m2 s = concat (map m2 (m1 s))"

definition alt :: "matcher \<Rightarrow> matcher \<Rightarrow> matcher" where
  "alt m1 m2 s = m1 s @ m2 s"

text \<open>\<^verbatim>\<open>.*\<close> and \<^verbatim>\<open>.+\<close>, where \<^verbatim>\<open>.\<close> is any code unit but a line terminator.\<close>

definition dot :: "char \<Rightarrow> bool" where
  "dot c \<longleftrightarrow> \<not> isLineTerminator c"

fun dotStar :: matcher where
  "dotStar [] = [ [] ]"
| "dotStar (x # xs) = (if dot x then dotStar xs @ [x # xs] else [x # xs])"

definition dotPlus :: matcher where
  "dotPlus s = (case s of [] \<Rightarrow> [] | x # xs \<Rightarrow> if dot x then dotStar xs else [])"

text \<open>A pattern between \<^verbatim>\<open>^\<close> and \<^verbatim>\<open>$\<close>.\<close>

definition regex_test :: "matcher \<Rightarrow> string \<Rightarrow> bool" where
  "regex_test m s \<longleftrightarrow> [] \<in> set (m s)"

text \<open>\<^verbatim>\<open>/^(https?:\/\/)?(www\.)?(youtube\.com|youtu\.?be)\/.+$/\<close>\<close>

definition youtubeRegex :: matcher where
  "youtubeRegex =
     seq (opt (seq (lit ''http'') (seq (opt (lit ''s'')) (lit ''://''))))
    (seq (opt (lit ''www.''))
    (seq (alt (lit ''youtube.com'') (seq (lit ''youtu'') (seq (opt (lit ''.'')) (lit ''be''))))
    (seq (lit ''/'') dotPlus)))"

record WelcomeScreenState =
  w_videoUrl :: string
  w_transcript :: string
  validationError :: string

definition initialWelcomeScreen :: WelcomeScreenState where
  "initialWelcomeScreen =
     \<lparr>w_videoUrl = ''https://youtu.be/p1yCOdp2vs0?si=pKV47XzCq44ERMGO'',
      w_transcript = [], validationError = []\<rparr>"

text \<open>\<^verbatim>\<open>handleStart(testType)\<close>: the new state of the screen, and the arguments of
  \<^verbatim>\<open>onStart\<close> when it is called.\<close>

definition handleStart ::
  "TestType \<Rightarrow> WelcomeScreenState \<Rightarrow> WelcomeScreenState \<times> (string \<times> string \<times> TestType) option"
where
  "handleStart testType w =
     (if \<not> regex_test youtubeRegex (w_videoUrl w) then
        (w\<lparr>validationError := ''Please enter a valid YouTube URL.''\<rparr>, None)
      else if length (trim (w_transcript w)) < 50 then
        (w\<lparr>validationError :=
            ''Please paste the video transcript. It should be at least 50 characters long.''\<rparr>,
         None)
      else (w\<lparr>validationError := []\<rparr>, Some (w_videoUrl w, w_transcript w, testType)))"


text \<open>The two rules of the input validation.\<close>

definition validInput :: "WelcomeScreenState \<Rightarrow> bool" where
  "validInput w \<longleftrightarrow>
     regex_test youtubeRegex (w_videoUrl w) \<and> 50 \<le> length (trim (w_transcript w))"


section \<open>The state of the workflow (App.tsx)\<close>

text \<open>The \<^verbatim>\<open>useState\<close> hooks of \<^verbatim>\<open>App\<close>.\<close>

record App =
  appState :: AppState
  evaluation :: "IEvaluation option"
  practicePlan :: "IPracticeItem list option"
  comprehensiveTest :: "IComprehensiveTest option"
  userAnswers :: "Answers option"
  videoUrl :: string
  error :: "string option"
  testType :: "TestType option"

definition initialApp :: App where
  "initialApp =
     \<lparr>appState = Welcome, evaluation = None, practicePlan = None, comprehensiveTest = None,
      userAnswers = None, videoUrl = [], error = None, testType = None\<rparr>"


section \<open>The AI gateway (services/geminiService.ts)\<close>

text \<open>
  The generative service and \<^verbatim>\<open>JSON.parse\<close> are outside the repository; they are the
  fields of an environment.  A request to \<^verbatim>\<open>ai.models.generateContent\<close> is identified by
  the data interpolated into its prompt; the prompt of the practice plan, which the
  properties below speak about, is spelled out.  The promise of a request is rejected
  (\<open>Inl\<close>) or resolves to a response, whose \<^verbatim>\<open>text\<close> may be undefined.  A response of
  \<^verbatim>\<open>ai.models.generateImages\<close> is the list of the image bytes it carries, if any.
  \<^verbatim>\<open>JSON.parse(..) as T\<close> yields a value of type \<open>T\<close> or throws.
\<close>

datatype request =
    TestRequest string string TestType
  | EvaluationRequest IComprehensiveTest Answers
  | PracticePlanRequest string

record env =
  generateContent :: "request \<Rightarrow> exn + string option"
  generateImages :: "string \<Rightarrow> exn + string list option"
  parseTest :: "string \<Rightarrow> IComprehensiveTest option"
  parseEvaluation :: "string \<Rightarrow> IEvaluation option"
  parsePracticePlan :: "string \<Rightarrow> IPracticeItem list option"
  Number_toString :: "rat \<Rightarrow> string"
  speechRecognition :: bool

text \<open>What a run does besides changing the state: the requests sent to the service, the
  calls of the two evaluation functions, and the state committed each time a handler
  suspends at an \<^verbatim>\<open>await\<close>.\<close>

datatype event =
    Request_generateContent request
  | Request_generateImages string
  | Invoke_evaluateComprehensiveTest IComprehensiveTest Answers
  | Invoke_getPracticePlan IEvaluation
  | Await App

definition generateComprehensiveTest ::
  "env \<Rightarrow> string \<Rightarrow> string \<Rightarrow> TestType \<Rightarrow> (exn + IComprehensiveTest) \<times> event list"
where
  "generateComprehensiveTest e url script type =
     (let req = TestRequest url script type in
      (case generateContent e req of
         Inl x \<Rightarrow> Inl x
       | Inr None \<Rightarrow>
           Inl (Error ''Could not generate the test from the AI. The response was not valid JSON.'')
       | Inr (Some text) \<Rightarrow>
           (case parseTest e (trim text) of
              None \<Rightarrow>
                Inl (Error ''Could not generate the test from the AI. The response was not valid JSON.'')
            | Some t \<Rightarrow> Inr t),
       [Request_generateContent req]))"

definition chartTypeName :: "ChartType \<Rightarrow> string" where
  "chartTypeName t =
     (case t of BarChart \<Rightarrow> ''bar chart'' | LineChart \<Rightarrow> ''line chart''
      | PieChart \<Rightarrow> ''pie chart'' | Table \<Rightarrow> ''table'')"

definition chartPrompt :: "IChartData \<Rightarrow> string" where
  "chartPrompt c =
     ''Generate a clean, simple, and easy-to-read '' @ chartTypeName (cd_type c)
     @ '' for an IELTS test. The title of the chart should be '' @ [CHR 0x22] @ cd_title c
     @ [CHR 0x22] @ ''. The data for the chart is: '' @ cd_data c
     @ ''. The chart should be visually clear, with labeled axes if appropriate. Do not add any text outside of the chart image itself. The style should be professional, minimalist, and use a muted color palette.''"

definition generateChartImage :: "env \<Rightarrow> IChartData \<Rightarrow> (exn + string) \<times> event list" where
  "generateChartImage e c =
     (let p = chartPrompt c in
      (case generateImages e p of
         Inl x \<Rightarrow> Inl x
       | Inr None \<Rightarrow> Inl (Error ''Failed to generate chart image.'')
       | Inr (Some []) \<Rightarrow> Inl (Error ''Failed to generate chart image.'')
       | Inr (Some (img # imgs)) \<Rightarrow> Inr img,
       [Request_generateImages p]))"

definition evaluateComprehensiveTest ::
  "env \<Rightarrow> IComprehensiveTest \<Rightarrow> Answers \<Rightarrow> (exn + IEvaluation) \<times> event list"
where
  "evaluateComprehensiveTest e testContent ans =
     (let req = EvaluationRequest testContent ans in
      (case generateContent e req of
         Inl x \<Rightarrow> Inl x
       | Inr None \<Rightarrow> Inl (Error ''Could not parse the evaluation from the AI.'')
       | Inr (Some text) \<Rightarrow>
           (case parseEvaluation e (trim text) of
              None \<Rightarrow> Inl (Error ''Could not parse the evaluation from the AI.'')
            | Some v \<Rightarrow> Inr v),
       [Request_generateContent req]))"

definition maintainExcellence :: IPracticeItem where
  "maintainExcellence =
     \<lparr>area = ''Overall Excellence'',
      title = ''Maintain Your High Standard'',
      description = ''Your performance is already at a high level. The key now is to maintain consistency and continue practicing with a wide range of topics to stay sharp.'',
      exercise = ''Challenge yourself with complex abstract topics. Record yourself speaking for 2 minutes on topics like 'The future of artificial intelligence' or 'The role of art in society', then self-evaluate.''\<rparr>"

text \<open>One line of the prompt per weak criterion, and the prompt around them.\<close>

definition weaknessLine :: "env \<Rightarrow> ICriterion \<Rightarrow> string" where
  "weaknessLine e w =
     ''- '' @ criterion w @ '' (Score: '' @ Number_toString e (score w) @ ''): '' @ feedback w"

definition practicePlanPrompt :: "env \<Rightarrow> rat \<Rightarrow> ICriterion list \<Rightarrow> string" where
  "practicePlanPrompt e overall weaknesses =
     ''\<newline>      Based on the following IELTS speaking evaluation, create a personalized practice plan to help the user achieve a band score of 7.5. \<newline>      The user's current evaluation is:\<newline>      Overall Score: ''
     @ Number_toString e overall
     @ ''\<newline>      Weakest Areas:\<newline>      ''
     @ join ''\<newline>'' (map (weaknessLine e) weaknesses)
     @ ''\<newline>\<newline>      Generate 3 distinct, actionable practice exercises. Each exercise should target one of the user's weakest areas across any of the four skills (Listening, Reading, Writing, Speaking).\<newline>      \<newline>      Strictly adhere to the JSON schema provided.\<newline>    ''"

definition getPracticePlan ::
  "env \<Rightarrow> IEvaluation \<Rightarrow> (exn + IPracticeItem list) \<times> event list"
where
  "getPracticePlan e ev =
     (let weaknesses = filter (\<lambda>s. score s < 7.5) (detailedScores ev) in
      if length weaknesses = 0 then (Inr [maintainExcellence], [])
      else
        (let req = PracticePlanRequest
                     (practicePlanPrompt e (overallBandScore ev) weaknesses) in
         (case generateContent e req of
            Inl x \<Rightarrow> Inl x
          | Inr None \<Rightarrow> Inl (Error ''Could not parse the practice plan from the AI.'')
          | Inr (Some text) \<Rightarrow>
              (case parsePracticePlan e (trim text) of
                 None \<Rightarrow> Inl (Error ''Could not parse the practice plan from the AI.'')
               | Some items \<Rightarrow> Inr items),
          [Request_generateContent req])))"


section \<open>The workflow state machine (App.tsx)\<close>

text \<open>
  \<^verbatim>\<open>startTest\<close> is asynchronous.  \<open>startTest_begin\<close> is the part that runs before the first
  \<^verbatim>\<open>await\<close>; \<open>startTest\<close> is the whole run, which returns the final state and the events
  of the run.  By the type of \<^verbatim>\<open>IWritingSection\<close> the chart data is always there, so the
  guard of step 2 is the test that the chart is no table.
\<close>

definition startTest_begin :: "string \<Rightarrow> TestType \<Rightarrow> App \<Rightarrow> App" where
  "startTest_begin url type a =
     a\<lparr>appState := Generating, error := None, videoUrl := url, testType := Some type\<rparr>"

definition generationFailed :: "App \<Rightarrow> App" where
  "generationFailed a =
     a\<lparr>error := Some ''Failed to generate the test. Please check the video URL or try again.'',
       appState := Welcome\<rparr>"

definition attachChartImage :: "string \<Rightarrow> IComprehensiveTest \<Rightarrow> IComprehensiveTest" where
  "attachChartImage img t =
     t\<lparr>writing := (writing t)\<lparr>task1 := (task1 (writing t))\<lparr>chartImage := Some img\<rparr>\<rparr>\<rparr>"

definition startTest ::
  "env \<Rightarrow> string \<Rightarrow> string \<Rightarrow> TestType \<Rightarrow> App \<Rightarrow> App \<times> event list"
where
  "startTest e url script type a =
     (let a1 = startTest_begin url type a;
          (r1, t1) = generateComprehensiveTest e url script type
      in case r1 of
           Inl x \<Rightarrow> (generationFailed a1, t1 @ [Await a1])
         | Inr testContent \<Rightarrow>
             if cd_type (chartData (task1 (writing testContent))) \<noteq> Table then
               (let (r2, t2) = generateChartImage e (chartData (task1 (writing testContent)))
                in case r2 of
                     Inl x \<Rightarrow> (generationFailed a1, t1 @ [Await a1] @ t2 @ [Await a1])
                   | Inr chartImageBase64 \<Rightarrow>
                       (a1\<lparr>comprehensiveTest :=
                              Some (attachChartImage chartImageBase64 testContent),
                           appState := Test\<rparr>,
                        t1 @ [Await a1] @ t2 @ [Await a1]))
             else (a1\<lparr>comprehensiveTest := Some testContent, appState := Test\<rparr>,
                   t1 @ [Await a1]))"

definition restartTest :: "App \<Rightarrow> App" where
  "restartTest a =
     a\<lparr>appState := Welcome, error := None, evaluation := None, practicePlan := None,
       comprehensiveTest := None, userAnswers := None, videoUrl := [], testType := None\<rparr>"

definition evaluationFailed :: "App \<Rightarrow> App" where
  "evaluationFailed a =
     a\<lparr>error := Some ''An error occurred during evaluation. Please try again.'',
       appState := Test\<rparr>"

text \<open>\<^verbatim>\<open>handleTestComplete(answers)\<close>: the final state and the events of the run.\<close>

definition handleTestComplete :: "env \<Rightarrow> Answers \<Rightarrow> App \<Rightarrow> App \<times> event list" where
  "handleTestComplete e ans a =
     (case (comprehensiveTest a, testType a) of
        (Some tc, Some type) \<Rightarrow>
          (let a1 = a\<lparr>userAnswers := Some ans, error := None\<rparr> in
           if type = WritingOnly \<or> type = SpeakingOnly \<or> type = Full then
             (let a2 = a1\<lparr>appState := Evaluating\<rparr>;
                  (r1, t1) = evaluateComprehensiveTest e tc ans;
                  tr1 = [Invoke_evaluateComprehensiveTest tc ans] @ t1 @ [Await a2]
              in case r1 of
                   Inl x \<Rightarrow> (evaluationFailed a2, tr1)
                 | Inr evalResult \<Rightarrow>
                     (let a3 = a2\<lparr>evaluation := Some evalResult\<rparr>;
                          (r2, t2) = getPracticePlan e evalResult;
                          tr2 = tr1 @ [Invoke_getPracticePlan evalResult] @ t2 @ [Await a3]
                      in case r2 of
                           Inl x \<Rightarrow> (evaluationFailed a3, tr2)
                         | Inr practiceResult \<Rightarrow>
                             (a3\<lparr>practicePlan := Some practiceResult, appState := Results\<rparr>,
                              tr2)))
           else (a1\<lparr>evaluation := None, practicePlan := None, appState := Results\<rparr>, []))
      | _ \<Rightarrow>
          (a\<lparr>error := Some ''Test content is missing. Please restart.'', appState := Welcome\<rparr>,
           []))"

text \<open>The states committed at the suspension points of a run, and the events that are
  calls of the two evaluation functions.\<close>

fun awaited :: "event list \<Rightarrow> App list" where
  "awaited [] = []"
| "awaited (Await s # evs) = s # awaited evs"
| "awaited (ev # evs) = awaited evs"

fun isInvoke :: "event \<Rightarrow> bool" where
  "isInvoke (Invoke_evaluateComprehensiveTest tc ans) = True"
| "isInvoke (Invoke_getPracticePlan ev) = True"
| "isInvoke ev = False"


section \<open>The test screen (TestScreen.tsx)\<close>

record TestScreenState =
  currentSection :: TestSection
  answers :: Answers
  isListening :: bool
  transcript :: string
  recognition :: bool
  currentSpeakingQuestionIndex :: nat

definition getInitialSection :: "TestType \<Rightarrow> TestSection" where
  "getInitialSection type =
     (case type of Full \<Rightarrow> Listening | ListeningOnly \<Rightarrow> Listening | ReadingOnly \<Rightarrow> Reading
      | WritingOnly \<Rightarrow> Writing | SpeakingOnly \<Rightarrow> Speaking)"

definition initialAnswers :: Answers where
  "initialAnswers =
     \<lparr>ans_listening = Map.empty, ans_reading = Map.empty,
      ans_writing = \<lparr>wa_task1 = [], wa_task2 = []\<rparr>, ans_speaking = []\<rparr>"

text \<open>The state of a test screen that has just been mounted: the initial values of its
  \<^verbatim>\<open>useState\<close> hooks, and the recognition object its effect creates when the browser has
  the speech API.\<close>

definition initialTestScreen :: "env \<Rightarrow> TestType \<Rightarrow> TestScreenState" where
  "initialTestScreen e type =
     \<lparr>currentSection = getInitialSection type, answers = initialAnswers, isListening = False,
      transcript = [], recognition = speechRecognition e, currentSpeakingQuestionIndex = 0\<rparr>"

definition startListening :: "TestScreenState \<Rightarrow> TestScreenState" where
  "startListening s = (if recognition s then s\<lparr>transcript := [], isListening := True\<rparr> else s)"

definition stopListening :: "TestScreenState \<Rightarrow> TestScreenState" where
  "stopListening s = (if recognition s then s\<lparr>isListening := False\<rparr> else s)"

definition toggleRecording :: "TestScreenState \<Rightarrow> TestScreenState" where
  "toggleRecording s = (if isListening s then stopListening s else startListening s)"

text \<open>\<^verbatim>\<open>handleAnswerChange\<close> is called from the listening and the reading form only.\<close>

datatype ObjectiveSection = InListening | InReading

definition handleAnswerChange ::
  "ObjectiveSection \<Rightarrow> nat \<Rightarrow> string \<Rightarrow> TestScreenState \<Rightarrow> TestScreenState"
where
  "handleAnswerChange section index v s =
     (case section of
        InListening \<Rightarrow>
          s\<lparr>answers := (answers s)\<lparr>ans_listening := (ans_listening (answers s))(index \<mapsto> v)\<rparr>\<rparr>
      | InReading \<Rightarrow>
          s\<lparr>answers := (answers s)\<lparr>ans_reading := (ans_reading (answers s))(index \<mapsto> v)\<rparr>\<rparr>)"

datatype WritingTask = Task1 | Task2

definition handleWritingChange :: "WritingTask \<Rightarrow> string \<Rightarrow> TestScreenState \<Rightarrow> TestScreenState" where
  "handleWritingChange task v s =
     (case task of
        Task1 \<Rightarrow>
          s\<lparr>answers := (answers s)\<lparr>ans_writing := (ans_writing (answers s))\<lparr>wa_task1 := v\<rparr>\<rparr>\<rparr>
      | Task2 \<Rightarrow>
          s\<lparr>answers := (answers s)\<lparr>ans_writing := (ans_writing (answers s))\<lparr>wa_task2 := v\<rparr>\<rparr>\<rparr>)"

text \<open>\<^verbatim>\<open>xs.indexOf(x)\<close> and \<^verbatim>\<open>xs[i]\<close>, the latter \<^verbatim>\<open>undefined\<close> out of range.\<close>

fun indexOf :: "'a list \<Rightarrow> 'a \<Rightarrow> int" where
  "indexOf [] y = - 1"
| "indexOf (x # xs) y =
     (if x = y then 0 else (let i = indexOf xs y in if i < 0 then - 1 else i + 1))"

definition elemAt :: "'a list \<Rightarrow> int \<Rightarrow> 'a option" where
  "elemAt xs i = (if 0 \<le> i \<and> i < int (length xs) then Some (xs ! nat i) else None)"

definition sections :: "TestSection list" where
  "sections = [Listening, Reading, Writing, Speaking]"

text \<open>The handlers that may call \<^verbatim>\<open>onTestComplete\<close> return its argument when they do.\<close>

definition nextSection :: "TestType \<Rightarrow> TestScreenState \<Rightarrow> TestScreenState \<times> Answers option" where
  "nextSection type s =
     (if type \<noteq> Full then (s, Some (answers s))
      else
        (let currentIndex = indexOf sections (currentSection s) in
         if currentIndex < int (length sections) - 1 then
           (case elemAt sections (currentIndex + 1) of
              Some sec \<Rightarrow> (s\<lparr>currentSection := sec\<rparr>, None)
            | None \<Rightarrow> (s, None))
         else (s, None)))"

definition handleNextSpeakingQuestion ::
  "IComprehensiveTest \<Rightarrow> TestScreenState \<Rightarrow> TestScreenState \<times> Answers option"
where
  "handleNextSpeakingQuestion testContent s =
     (case elemAt (speaking testContent) (int (currentSpeakingQuestionIndex s)) of
        None \<Rightarrow> (s, None)
      | Some currentSpeakingQuestion \<Rightarrow>
          (let isLastSpeakingQuestion =
                 (int (currentSpeakingQuestionIndex s) = int (length (speaking testContent)) - 1);
               s1 = (if isListening s then stopListening s else s);
               newAnswer = \<lparr>sa_question = question currentSpeakingQuestion,
                            sa_answer = transcript s\<rparr>;
               updatedSpeakingAnswers = ans_speaking (answers s) @ [newAnswer];
               s2 = s1\<lparr>answers := (answers s1)\<lparr>ans_speaking := updatedSpeakingAnswers\<rparr>\<rparr>
           in if isLastSpeakingQuestion then
                (s2, Some ((answers s)\<lparr>ans_speaking := updatedSpeakingAnswers\<rparr>))
              else
                (s2\<lparr>currentSpeakingQuestionIndex := currentSpeakingQuestionIndex s2 + 1,
                    transcript := []\<rparr>,
                 None)))"

text \<open>
  What can happen on the test screen: typing an answer, the button under a section, typing
  in the transcript editor, the microphone button, a result of the speech recogniser
  (the transcript it has heard so far), and the button under a speaking question.
\<close>

datatype TestScreenEvent =
    AnswerChange ObjectiveSection nat string
  | WritingChange WritingTask string
  | NextSectionClick
  | TranscriptChange string
  | ToggleRecordingClick
  | SpeechResult string
  | NextSpeakingQuestionClick

definition testScreen_step ::
  "IComprehensiveTest \<Rightarrow> TestType \<Rightarrow> TestScreenEvent \<Rightarrow> TestScreenState
     \<Rightarrow> TestScreenState \<times> Answers option"
where
  "testScreen_step testContent type ev s =
     (case ev of
        AnswerChange section index v \<Rightarrow> (handleAnswerChange section index v s, None)
      | WritingChange task v \<Rightarrow> (handleWritingChange task v s, None)
      | NextSectionClick \<Rightarrow> nextSection type s
      | TranscriptChange v \<Rightarrow> (s\<lparr>transcript := v\<rparr>, None)
      | ToggleRecordingClick \<Rightarrow> (toggleRecording s, None)
      | SpeechResult fullTranscript \<Rightarrow> (s\<lparr>transcript := fullTranscript\<rparr>, None)
      | NextSpeakingQuestionClick \<Rightarrow> handleNextSpeakingQuestion testContent s)"

text \<open>A sequence of events on one mounted test screen: the final state and the arguments
  of the calls of \<^verbatim>\<open>onTestComplete\<close>, in order.\<close>

fun testScreen_run ::
  "IComprehensiveTest \<Rightarrow> TestType \<Rightarrow> TestScreenEvent list \<Rightarrow> TestScreenState
     \<Rightarrow> TestScreenState \<times> Answers list"
where
  "testScreen_run testContent type [] s = (s, [])"
| "testScreen_run testContent type (ev # evs) s =
     (let (s1, c) = testScreen_step testContent type ev s;
          (s2, cs) = testScreen_run testContent type evs s1
      in (s2, (case c of None \<Rightarrow> [] | Some a \<Rightarrow> [a]) @ cs))"

text \<open>The content of the transcript buffer at each click on the button under a speaking
  question, in the order of the clicks.\<close>

fun buffersAtAdvance ::
  "IComprehensiveTest \<Rightarrow> TestType \<Rightarrow> TestScreenEvent list \<Rightarrow> TestScreenState \<Rightarrow> string list"
where
  "buffersAtAdvance testContent type [] s = []"
| "buffersAtAdvance testContent type (ev # evs) s =
     (if ev = NextSpeakingQuestionClick then [transcript s] else [])
     @ buffersAtAdvance testContent type evs (fst (testScreen_step testContent type ev s))"


section \<open>What the application shows (renderContent in App.tsx)\<close>

text \<open>
  \<^verbatim>\<open>renderContent\<close> returns one component for each workflow state.  The welcome screen
  and the test screen keep state of their own in \<^verbatim>\<open>useState\<close> hooks.  React keeps the
  state of a component for as long as the same component is rendered at the same place,
  and creates it afresh from the initial values when the component is mounted again after
  another one has taken its place.  The state of the evaluation screen (two flags of the
  PDF export) is left out.
\<close>

datatype screen =
    WelcomeScreen WelcomeScreenState
  | Loader string
  | TestScreen TestScreenState
  | EvaluationScreen

record UI =
  ui_app :: App
  ui_screen :: screen

definition initialUI :: UI where
  "initialUI = \<lparr>ui_app = initialApp, ui_screen = WelcomeScreen initialWelcomeScreen\<rparr>"

text \<open>The fallback of the \<^verbatim>\<open>test\<close> and \<^verbatim>\<open>results\<close> cases calls \<^verbatim>\<open>restartTest\<close> and renders
  nothing; the welcome screen is mounted by the render that follows.\<close>

definition renderContent :: "env \<Rightarrow> App \<Rightarrow> screen \<Rightarrow> UI" where
  "renderContent e a old =
     (let fallback = \<lparr>ui_app = restartTest a, ui_screen = WelcomeScreen initialWelcomeScreen\<rparr>
      in case appState a of
        Welcome \<Rightarrow>
          \<lparr>ui_app = a,
           ui_screen = (case old of WelcomeScreen w \<Rightarrow> WelcomeScreen w
                        | _ \<Rightarrow> WelcomeScreen initialWelcomeScreen)\<rparr>
      | Generating \<Rightarrow>
          \<lparr>ui_app = a,
           ui_screen = Loader ''Analyzing transcript, creating test, and generating visuals...''\<rparr>
      | Test \<Rightarrow>
          (case (comprehensiveTest a, testType a) of
             (Some tc, Some type) \<Rightarrow>
               if videoUrl a \<noteq> [] then
                 \<lparr>ui_app = a,
                  ui_screen = (case old of TestScreen t \<Rightarrow> TestScreen t
                               | _ \<Rightarrow> TestScreen (initialTestScreen e type))\<rparr>
               else fallback
           | _ \<Rightarrow> fallback)
      | Evaluating \<Rightarrow>
          \<lparr>ui_app = a,
           ui_screen = Loader ''Our AI examiner is evaluating your performance and preparing model answers...''\<rparr>
      | Results \<Rightarrow>
          if comprehensiveTest a \<noteq> None \<and> userAnswers a \<noteq> None then
            \<lparr>ui_app = a, ui_screen = EvaluationScreen\<rparr>
          else fallback)"

text \<open>The screen after a run of a handler: the application is rendered with the state
  committed at each suspension point, then with the final state.\<close>

definition rerender :: "env \<Rightarrow> screen \<Rightarrow> event list \<Rightarrow> App \<Rightarrow> UI" where
  "rerender e old tr a =
     renderContent e a (foldl (\<lambda>scr a'. ui_screen (renderContent e a' scr)) old (awaited tr))"

text \<open>A click on a button of the welcome screen, and an event on the test screen, with the
  handlers of \<^verbatim>\<open>App\<close> they call through \<^verbatim>\<open>onStart\<close> and \<^verbatim>\<open>onTestComplete\<close>.\<close>

definition ui_start :: "env \<Rightarrow> TestType \<Rightarrow> UI \<Rightarrow> UI \<times> event list" where
  "ui_start e type ui =
     (case ui_screen ui of
        WelcomeScreen w \<Rightarrow>
          (let (w', call) = handleStart type w in
           case call of
             None \<Rightarrow> (ui\<lparr>ui_screen := WelcomeScreen w'\<rparr>, [])
           | Some (url, script, type') \<Rightarrow>
               (let (a', tr) = startTest e url script type' (ui_app ui)
                in (rerender e (WelcomeScreen w') tr a', tr)))
      | _ \<Rightarrow> (ui, []))"

definition ui_test :: "env \<Rightarrow> TestScreenEvent \<Rightarrow> UI \<Rightarrow> UI \<times> event list" where
  "ui_test e ev ui =
     (case ui_screen ui of
        TestScreen s \<Rightarrow>
          (case (comprehensiveTest (ui_app ui), testType (ui_app ui)) of
             (Some tc, Some type) \<Rightarrow>
               (let (s', c) = testScreen_step tc type ev s in
                case c of
                  None \<Rightarrow> (ui\<lparr>ui_screen := TestScreen s'\<rparr>, [])
                | Some ans \<Rightarrow>
                    (let (a', tr) = handleTestComplete e ans (ui_app ui)
                     in (rerender e (TestScreen s') tr a', tr)))
           | _ \<Rightarrow> (ui, []))
      | _ \<Rightarrow> (ui, []))"

text \<open>The answers that the screen shown holds, if it is the test screen: what a
  submission from it sends.\<close>

definition shownAnswers :: "UI \<Rightarrow> Answers option" where
  "shownAnswers ui = (case ui_screen ui of TestScreen s \<Rightarrow> Some (answers s) | _ \<Rightarrow> None)"


section \<open>The Markdown export (EvaluationScreen.tsx)\<close>

text \<open>
  \<^verbatim>\<open>x.toFixed(1)\<close> for a finite number: the decimal digits of the integer \<open>n\<close> with
  \<open>n / 10\<close> nearest to \<open>|x|\<close> (the larger one of two), with a point before the last digit.
  From \<open>10\<^sup>2\<^sup>1\<close> on the result is that of \<^verbatim>\<open>String(x)\<close>, a function of the environment.
\<close>

definition digitChar :: "nat \<Rightarrow> char" where
  "digitChar d = ''0123456789'' ! d"

function decimal :: "nat \<Rightarrow> string" where
  "decimal n = (if n < 10 then [digitChar n] else decimal (n div 10) @ [digitChar (n mod 10)])"
  by pat_completeness auto
termination
  by (relation "measure id") auto

declare decimal.simps [simp del]

definition toFixed1 :: "env \<Rightarrow> rat \<Rightarrow> string" where
  "toFixed1 e x =
     (if 10 ^ 21 \<le> \<bar>x\<bar> then Number_toString e x
      else
        (let n = nat \<lfloor>\<bar>x\<bar> * 10 + 1 / 2\<rfloor>;
             m = decimal n;
             m' = (if length m \<le> 1 then replicate (2 - length m) (CHR ''0'') @ m else m);
             k = length m'
         in (if x < 0 then ''-'' else []) @ take (k - 1) m' @ ''.'' @ drop (k - 1) m'))"

definition mainSkills :: "string list" where
  "mainSkills = [''Listening'', ''Reading'', ''Writing'', ''Speaking'']"

definition mainScores :: "IEvaluation option \<Rightarrow> ICriterion list" where
  "mainScores ev =
     (case ev of None \<Rightarrow> []
      | Some v \<Rightarrow> filter (\<lambda>s. criterion s \<in> set mainSkills) (detailedScores v))"

definition detailedCriteria :: "IEvaluation option \<Rightarrow> ICriterion list" where
  "detailedCriteria ev =
     (case ev of None \<Rightarrow> []
      | Some v \<Rightarrow> filter (\<lambda>s. criterion s \<notin> set mainSkills) (detailedScores v))"

text \<open>The text appended by the three \<^verbatim>\<open>if\<close> blocks of \<^verbatim>\<open>handleSaveAsMarkdown\<close>, each
  \<^verbatim>\<open>forEach\<close> appending the text of its items in order.  By the type of \<^verbatim>\<open>IEvaluation\<close>
  the improved answers are there whenever the evaluation is, so the guard of the second
  block is that of the first.\<close>

definition markdownScoreRow :: "env \<Rightarrow> ICriterion \<Rightarrow> string" where
  "markdownScoreRow e s = ''| '' @ criterion s @ '' | '' @ toFixed1 e (score s) @ '' |\<newline>''"

definition markdownFeedback :: "env \<Rightarrow> ICriterion \<Rightarrow> string" where
  "markdownFeedback e item =
     ''### '' @ criterion item @ '': '' @ toFixed1 e (score item) @ ''\<newline>''
     @ feedback item @ ''\<newline>\<newline>''"

definition markdownEvaluation :: "env \<Rightarrow> IEvaluation \<Rightarrow> string" where
  "markdownEvaluation e ev =
     ''## Overall Band Score: '' @ toFixed1 e (overallBandScore ev) @ ''\<newline>\<newline>''
     @ ''| Section   | Score |\<newline>''
     @ ''|-----------|-------|\<newline>''
     @ concat (map (markdownScoreRow e) (mainScores (Some ev)))
     @ ''\<newline>''
     @ ''## Examiner's Summary\<newline>\<newline>''
     @ summary ev @ ''\<newline>\<newline>''
     @ ''## Detailed Feedback\<newline>\<newline>''
     @ concat (map (markdownFeedback e) (detailedCriteria (Some ev)))"

definition markdownSpeaking :: "Answers \<Rightarrow> nat \<times> IImprovedSpeakingAnswer \<Rightarrow> string" where
  \<open>markdownSpeaking ua p =
     (case p of (index, item) \<Rightarrow>
        ''### Speaking Question: "'' @ isa_question item
        @ ''"\<newline>\<newline>#### Your Answer\<newline>\<newline>''
        @ ''```\<newline>''
        @ orElse (map_option sa_answer (elemAt (ans_speaking ua) (int index))) ''No answer provided.''
        @ ''\<newline>```\<newline>\<newline>''
        @ ''#### Model Answer (Band 7.5)\<newline>\<newline>''
        @ ''```\<newline>'' @ improvedAnswer item @ ''\<newline>```\<newline>\<newline>'')\<close>

definition markdownModelAnswers :: "IEvaluation \<Rightarrow> Answers \<Rightarrow> IComprehensiveTest \<Rightarrow> string" where
  "markdownModelAnswers ev ua testContent =
     ''## Path to Band 7.5: Model Answers\<newline>\<newline>''
     @ ''### Writing Task 1\<newline>\<newline>#### Question\<newline>\<newline>''
     @ prompt (task1 (writing testContent)) @ ''\<newline>\<newline>''
     @ ''#### Your Answer\<newline>\<newline>''
     @ ''```\<newline>'' @ orElse (Some (wa_task1 (ans_writing ua))) ''No answer provided.'' @ ''\<newline>```\<newline>\<newline>''
     @ ''#### Model Answer (Band 7.5)\<newline>\<newline>''
     @ ''```\<newline>'' @ writingTask1 (improvedAnswers ev) @ ''\<newline>```\<newline>\<newline>''
     @ ''### Writing Task 2\<newline>\<newline>#### Question\<newline>\<newline>''
     @ task2 (writing testContent) @ ''\<newline>\<newline>''
     @ ''#### Your Answer\<newline>\<newline>''
     @ ''```\<newline>'' @ orElse (Some (wa_task2 (ans_writing ua))) ''No answer provided.'' @ ''\<newline>```\<newline>\<newline>''
     @ ''#### Model Answer (Band 7.5)\<newline>\<newline>''
     @ ''```\<newline>'' @ writingTask2 (improvedAnswers ev) @ ''\<newline>```\<newline>\<newline>''
     @ concat (map (markdownSpeaking ua) (enumerate 0 (ia_speaking (improvedAnswers ev))))"

definition markdownPracticeItem :: "IPracticeItem \<Rightarrow> string" where
  "markdownPracticeItem item =
     ''### '' @ title item @ ''\<newline>\<newline>''
     @ ''**Focus Area:** '' @ area item @ ''\<newline>\<newline>''
     @ description item @ ''\<newline>\<newline>''
     @ ''**Exercise:**\<newline>''
     @ ''```\<newline>'' @ exercise item @ ''\<newline>```\<newline>\<newline>''"

definition markdownPracticePlan :: "IPracticeItem list \<Rightarrow> string" where
  "markdownPracticePlan plan =
     ''## Your Personalized Practice Plan\<newline>\<newline>''
     @ concat (map markdownPracticeItem plan)"

text \<open>The content of the file that \<^verbatim>\<open>handleSaveAsMarkdown\<close> offers for download.\<close>

definition handleSaveAsMarkdown ::
  "env \<Rightarrow> IEvaluation option \<Rightarrow> IPracticeItem list option \<Rightarrow> Answers \<Rightarrow> IComprehensiveTest
     \<Rightarrow> string"
where
  "handleSaveAsMarkdown e ev plan ua testContent =
     (let md0 = ''# IELTS Evaluation Report\<newline>\<newline>'';
          md1 = (case ev of None \<Rightarrow> md0 | Some v \<Rightarrow> md0 @ markdownEvaluation e v);
          md2 = (case ev of None \<Rightarrow> md1
                 | Some v \<Rightarrow> md1 @ markdownModelAnswers v ua testContent);
          md3 = (case plan of None \<Rightarrow> md2 | Some p \<Rightarrow> md2 @ markdownPracticePlan p)
      in md3)"

text \<open>How often a text occurs in a document (the number of positions at which it starts);
  the rest of a document after the first occurrence of a text; and a list of texts
  occurring in a document one after the other without overlap, each searched in what
  follows the one before.\<close>

fun occurrences :: "string \<Rightarrow> string \<Rightarrow> nat" where
  "occurrences p [] = (if p = [] then 1 else 0)"
| "occurrences p (x # xs) = (if prefix p (x # xs) then 1 else 0) + occurrences p xs"

fun restAfter :: "string \<Rightarrow> string \<Rightarrow> string option" where
  "restAfter p [] = (if p = [] then Some [] else None)"
| "restAfter p (x # xs) =
     (if prefix p (x # xs) then Some (drop (length p) (x # xs)) else restAfter p xs)"

fun occurInOrder :: "string list \<Rightarrow> string \<Rightarrow> bool" where
  "occurInOrder [] doc = True"
| "occurInOrder (p # ps) doc =
     (case restAfter p doc of None \<Rightarrow> False | Some rest \<Rightarrow> occurInOrder ps rest)"

text \<open>
  The same document as the sequence of the pieces that \<^verbatim>\<open>handleSaveAsMarkdown\<close> appends:
  the fixed text of its template literals, and the value of every expression that they
  interpolate or that is concatenated between them, each with the place of the report
  that it fills.
\<close>

datatype field =
    OverallBandScore | SectionName | SectionScore | Summary
  | CriterionName | CriterionScore | Feedback
  | Task1Prompt | Task1Answer | Task1Model
  | Task2Prompt | Task2Answer | Task2Model
  | SpeakingQuestion | SpeakingAnswer | SpeakingModel
  | PlanTitle | PlanArea | PlanDescription | Exercise

datatype piece = Fixed string | Written field string

fun pieceText :: "piece \<Rightarrow> string" where
  "pieceText (Fixed s) = s"
| "pieceText (Written f s) = s"

definition scoreRowPieces :: "env \<Rightarrow> ICriterion \<Rightarrow> piece list" where
  "scoreRowPieces e s =
     [Fixed ''| '', Written SectionName (criterion s), Fixed '' | '',
      Written SectionScore (toFixed1 e (score s)), Fixed '' |\<newline>'']"

definition feedbackPieces :: "env \<Rightarrow> ICriterion \<Rightarrow> piece list" where
  "feedbackPieces e item =
     [Fixed ''### '', Written CriterionName (criterion item), Fixed '': '',
      Written CriterionScore (toFixed1 e (score item)), Fixed ''\<newline>'',
      Written Feedback (feedback item), Fixed ''\<newline>\<newline>'']"

definition evaluationPieces :: "env \<Rightarrow> IEvaluation \<Rightarrow> piece list" where
  "evaluationPieces e ev =
     [Fixed ''## Overall Band Score: '',
      Written OverallBandScore (toFixed1 e (overallBandScore ev)), Fixed ''\<newline>\<newline>'',
      Fixed ''| Section   | Score |\<newline>'',
      Fixed ''|-----------|-------|\<newline>'']
     @ concat (map (scoreRowPieces e) (mainScores (Some ev)))
     @ [Fixed ''\<newline>'',
        Fixed ''## Examiner's Summary\<newline>\<newline>'',
        Written Summary (summary ev), Fixed ''\<newline>\<newline>'',
        Fixed ''## Detailed Feedback\<newline>\<newline>'']
     @ concat (map (feedbackPieces e) (detailedCriteria (Some ev)))"

definition speakingPieces :: "Answers \<Rightarrow> nat \<times> IImprovedSpeakingAnswer \<Rightarrow> piece list" where
  \<open>speakingPieces ua p =
     (case p of (index, item) \<Rightarrow>
        [Fixed ''### Speaking Question: "'', Written SpeakingQuestion (isa_question item),
         Fixed ''"\<newline>\<newline>#### Your Answer\<newline>\<newline>'',
         Fixed ''```\<newline>'',
         Written SpeakingAnswer
           (orElse (map_option sa_answer (elemAt (ans_speaking ua) (int index)))
              ''No answer provided.''),
         Fixed ''\<newline>```\<newline>\<newline>'',
         Fixed ''#### Model Answer (Band 7.5)\<newline>\<newline>'',
         Fixed ''```\<newline>'', Written SpeakingModel (improvedAnswer item),
         Fixed ''\<newline>```\<newline>\<newline>''])\<close>

definition modelAnswersPieces :: "IEvaluation \<Rightarrow> Answers \<Rightarrow> IComprehensiveTest \<Rightarrow> piece list" where
  "modelAnswersPieces ev ua testContent =
     [Fixed ''## Path to Band 7.5: Model Answers\<newline>\<newline>'',
      Fixed ''### Writing Task 1\<newline>\<newline>#### Question\<newline>\<newline>'',
      Written Task1Prompt (prompt (task1 (writing testContent))), Fixed ''\<newline>\<newline>'',
      Fixed ''#### Your Answer\<newline>\<newline>'',
      Fixed ''```\<newline>'',
      Written Task1Answer (orElse (Some (wa_task1 (ans_writing ua))) ''No answer provided.''),
      Fixed ''\<newline>```\<newline>\<newline>'',
      Fixed ''#### Model Answer (Band 7.5)\<newline>\<newline>'',
      Fixed ''```\<newline>'', Written Task1Model (writingTask1 (improvedAnswers ev)),
      Fixed ''\<newline>```\<newline>\<newline>'',
      Fixed ''### Writing Task 2\<newline>\<newline>#### Question\<newline>\<newline>'',
      Written Task2Prompt (task2 (writing testContent)), Fixed ''\<newline>\<newline>'',
      Fixed ''#### Your Answer\<newline>\<newline>'',
      Fixed ''```\<newline>'',
      Written Task2Answer (orElse (Some (wa_task2 (ans_writing ua))) ''No answer provided.''),
      Fixed ''\<newline>```\<newline>\<newline>'',
      Fixed ''#### Model Answer (Band 7.5)\<newline>\<newline>'',
      Fixed ''```\<newline>'', Written Task2Model (writingTask2 (improvedAnswers ev)),
      Fixed ''\<newline>```\<newline>\<newline>'']
     @ concat (map (speakingPieces ua) (enumerate 0 (ia_speaking (improvedAnswers ev))))"

definition practiceItemPieces :: "IPracticeItem \<Rightarrow> piece list" where
  "practiceItemPieces item =
     [Fixed ''### '', Written PlanTitle (title item), Fixed ''\<newline>\<newline>'',
      Fixed ''**Focus Area:** '', Written PlanArea (area item), Fixed ''\<newline>\<newline>'',
      Written PlanDescription (description item), Fixed ''\<newline>\<newline>'',
      Fixed ''**Exercise:**\<newline>'',
      Fixed ''```\<newline>'', Written Exercise (exercise item), Fixed ''\<newline>```\<newline>\<newline>'']"

definition practicePlanPieces :: "IPracticeItem list \<Rightarrow> piece list" where
  "practicePlanPieces plan =
     Fixed ''## Your Personalized Practice Plan\<newline>\<newline>''
     # concat (map practiceItemPieces plan)"

definition markdownPieces ::
  "env \<Rightarrow> IEvaluation option \<Rightarrow> IPracticeItem list option \<Rightarrow> Answers \<Rightarrow> IComprehensiveTest
     \<Rightarrow> piece list"
where
  "markdownPieces e ev plan ua testContent =
     (let md0 = [Fixed ''# IELTS Evaluation Report\<newline>\<newline>''];
          md1 = (case ev of None \<Rightarrow> md0 | Some v \<Rightarrow> md0 @ evaluationPieces e v);
          md2 = (case ev of None \<Rightarrow> md1
                 | Some v \<Rightarrow> md1 @ modelAnswersPieces v ua testContent);
          md3 = (case plan of None \<Rightarrow> md2 | Some p \<Rightarrow> md2 @ practicePlanPieces p)
      in md3)"

text \<open>The text of a sequence of pieces; the values written for the given places of the
  report, in the order in which they are written; and the pieces but the one at an
  index.\<close>

definition render :: "piece list \<Rightarrow> string" where
  "render ps = concat (map pieceText ps)"

fun written :: "field list \<Rightarrow> piece list \<Rightarrow> string list" where
  "written fs [] = []"
| "written fs (Fixed s # ps) = written fs ps"
| "written fs (Written g s # ps) = (if g \<in> set fs then s # written fs ps else written fs ps)"

definition others :: "nat \<Rightarrow> piece list \<Rightarrow> piece list" where
  "others k ps = take k ps @ drop (Suc k) ps"


section \<open>Failure of the evaluation phase\<close>

text \<open>The evaluation phase fails when \<^verbatim>\<open>evaluateComprehensiveTest\<close> throws, or when it
  returns and \<^verbatim>\<open>getPracticePlan\<close> throws on its result.\<close>

definition evaluationFails :: "env \<Rightarrow> IComprehensiveTest \<Rightarrow> Answers \<Rightarrow> bool" where
  "evaluationFails e tc ans \<longleftrightarrow>
     (case fst (evaluateComprehensiveTest e tc ans) of
        Inl x \<Rightarrow> True
      | Inr ev \<Rightarrow> (case fst (getPracticePlan e ev) of Inl y \<Rightarrow> True | Inr plan \<Rightarrow> False))"


section \<open>Example inputs\<close>

text \<open>
  A speaking-only test with one question, an evaluation of it with two criteria below
  7.5, a practice plan of one exercise, and two environments: one whose service is
  unreachable, one whose service answers with the JSON text of these values, which
  \<^verbatim>\<open>JSON.parse\<close> turns into them.  \<open>exampleToString\<close> is \<^verbatim>\<open>String(x)\<close> for a number with at
  most one decimal, which band scores are.
\<close>

definition exampleToString :: "rat \<Rightarrow> string" where
  "exampleToString x =
     (let n = nat \<lfloor>\<bar>x\<bar> * 10\<rfloor> in
      (if x < 0 then ''-'' else []) @ decimal (n div 10)
      @ (if n mod 10 = 0 then [] else ''.'' @ [digitChar (n mod 10)]))"

definition offline :: env where
  "offline =
     \<lparr>generateContent = (\<lambda>r. Inl (Rejected ''Failed to fetch'')),
      generateImages = (\<lambda>p. Inl (Rejected ''Failed to fetch'')),
      parseTest = (\<lambda>s. None), parseEvaluation = (\<lambda>s. None),
      parsePracticePlan = (\<lambda>s. None),
      Number_toString = exampleToString, speechRecognition = True\<rparr>"

definition exampleQuestion :: IQuestion where
  "exampleQuestion =
     \<lparr>part = 1, q_type = Introduction, question = ''Do you watch videos online?'',
      cueCard = None\<rparr>"

definition exampleTest :: IComprehensiveTest where
  "exampleTest =
     \<lparr>listening = \<lparr>l_questions = []\<rparr>,
      reading = \<lparr>r_transcript = ''Coral reefs grow slowly.'', r_questions = []\<rparr>,
      writing = \<lparr>task1 = \<lparr>prompt = [],
                          chartData = \<lparr>cd_type = Table, cd_title = [], cd_data = []\<rparr>,
                          chartImage = None\<rparr>,
                 task2 = []\<rparr>,
      speaking = [exampleQuestion]\<rparr>"

definition exampleSubmitted :: Answers where
  "exampleSubmitted =
     initialAnswers\<lparr>ans_speaking :=
       [\<lparr>sa_question = ''Do you watch videos online?'', sa_answer = ''Yes, every day.''\<rparr>]\<rparr>"

definition exampleEvaluation :: IEvaluation where
  "exampleEvaluation =
     \<lparr>overallBandScore = 6.5,
      detailedScores =
        [\<lparr>criterion = ''Speaking'', score = 6.5, feedback = ''Clear but hesitant.''\<rparr>,
         \<lparr>criterion = ''Speaking - Fluency and Coherence'', score = 6.5,
          feedback = ''Pause less between ideas.''\<rparr>],
      summary = ''A solid attempt.'',
      improvedAnswers =
        \<lparr>writingTask1 = [], writingTask2 = [],
         ia_speaking = [\<lparr>isa_question = ''Do you watch videos online?'',
                         improvedAnswer = ''Yes, I watch videos online almost every day.''\<rparr>]\<rparr>\<rparr>"

definition examplePlan :: "IPracticeItem list" where
  "examplePlan =
     [\<lparr>area = ''Fluency'', title = ''Keep talking'',
       description = ''Practise speaking without long pauses.'',
       exercise = ''Talk for one minute without stopping.''\<rparr>]"

definition exampleTestJson :: string where
  \<open>exampleTestJson =
     ''{"listening":{"questions":[]},"reading":{"transcript":"Coral reefs grow slowly.","questions":[]},"writing":{"task1":{"prompt":"","chartData":{"type":"table","title":"","data":""}},"task2":""},"speaking":[{"part":1,"type":"introduction","question":"Do you watch videos online?"}]}''\<close>

definition exampleEvaluationJson :: string where
  \<open>exampleEvaluationJson =
     ''{"overallBandScore":6.5,"detailedScores":[{"criterion":"Speaking","score":6.5,"feedback":"Clear but hesitant."},{"criterion":"Speaking - Fluency and Coherence","score":6.5,"feedback":"Pause less between ideas."}],"summary":"A solid attempt.","improvedAnswers":{"writingTask1":"","writingTask2":"","speaking":[{"question":"Do you watch videos online?","improvedAnswer":"Yes, I watch videos online almost every day."}]}}''\<close>

definition examplePlanJson :: string where
  \<open>examplePlanJson =
     ''[{"area":"Fluency","title":"Keep talking","description":"Practise speaking without long pauses.","exercise":"Talk for one minute without stopping."}]''\<close>

definition exampleEnv :: env where
  "exampleEnv =
     \<lparr>generateContent =
        (\<lambda>r. case r of
           TestRequest url script type \<Rightarrow> Inr (Some exampleTestJson)
         | EvaluationRequest tc ans \<Rightarrow> Inr (Some exampleEvaluationJson)
         | PracticePlanRequest p \<Rightarrow> Inr (Some examplePlanJson)),
      generateImages = (\<lambda>p. Inr (Some [''iVBORw0KGgo=''])),
      parseTest = (\<lambda>s. if s = exampleTestJson then Some exampleTest else None),
      parseEvaluation =
        (\<lambda>s. if s = exampleEvaluationJson then Some exampleEvaluation else None),
      parsePracticePlan = (\<lambda>s. if s = examplePlanJson then Some examplePlan else None),
      Number_toString = exampleToString, speechRecognition = True\<rparr>"

text \<open>The application while that test is taken: the answer to the only question is in
  the transcript buffer, and the user is about to click "Finish \<open>&\<close> Evaluate".\<close>

definition exampleApp :: App where
  "exampleApp =
     \<lparr>appState = Test, evaluation = None, practicePlan = None,
      comprehensiveTest = Some exampleTest, userAnswers = None,
      videoUrl = ''https://youtu.be/p1yCOdp2vs0'', error = None,
      testType = Some SpeakingOnly\<rparr>"

definition exampleTestScreen :: TestScreenState where
  "exampleTestScreen = (initialTestScreen offline SpeakingOnly)\<lparr>transcript := ''Yes, every day.''\<rparr>"

definition exampleUI :: UI where
  "exampleUI = \<lparr>ui_app = exampleApp, ui_screen = TestScreen exampleTestScreen\<rparr>"

text \<open>A welcome screen with the default URL and a transcript of 66 characters.\<close>

definition exampleWelcome :: WelcomeScreenState where
  "exampleWelcome =
     initialWelcomeScreen\<lparr>w_transcript :=
       ''In this video we look at how coral reefs grow and why they matter.''\<rparr>"

text \<open>The same test with a second speaking question, and a user who types the first answer
  and dictates the second.\<close>

definition exampleTwoQuestions :: IComprehensiveTest where
  "exampleTwoQuestions =
     exampleTest\<lparr>speaking :=
       [exampleQuestion, exampleQuestion\<lparr>question := ''What do you like about them?''\<rparr>]\<rparr>"

definition exampleEvents :: "TestScreenEvent list" where
  "exampleEvents =
     [TranscriptChange ''Yes, every day.'', NextSpeakingQuestionClick,
      ToggleRecordingClick, SpeechResult ''They are '', SpeechResult ''They are fun.'',
      ToggleRecordingClick, NextSpeakingQuestionClick]"

text \<open>An environment whose service generates a writing test with a bar chart and answers
  the image request without an image.\<close>

definition exampleChartTest :: IComprehensiveTest where
  "exampleChartTest =
     exampleTest\<lparr>speaking := [],
       writing := \<lparr>task1 = \<lparr>prompt = ''Summarise the chart.'',
                             chartData = \<lparr>cd_type = BarChart, cd_title = ''Reef growth'',
                                          cd_data = ''2022: 5, 2023: 8''\<rparr>,
                             chartImage = None\<rparr>,
                    task2 = ''Should reefs be protected?''\<rparr>\<rparr>"

definition exampleChartTestJson :: string where
  \<open>exampleChartTestJson =
     ''{"listening":{"questions":[]},"reading":{"transcript":"Coral reefs grow slowly.","questions":[]},"writing":{"task1":{"prompt":"Summarise the chart.","chartData":{"type":"bar chart","title":"Reef growth","data":"2022: 5, 2023: 8"}},"task2":"Should reefs be protected?"},"speaking":[]}''\<close>

definition noImageEnv :: env where
  "noImageEnv =
     exampleEnv\<lparr>generateContent := (\<lambda>r. Inr (Some exampleChartTestJson)),
                parseTest := (\<lambda>s. if s = exampleChartTestJson then Some exampleChartTest else None),
                generateImages := (\<lambda>p. Inr (Some []))\<rparr>"

section \<open>Properties of the table renderer\<close>

lemma length_filter_mono:
  "(\<And>x. P x \<Longrightarrow> Q x) \<Longrightarrow> length (filter P xs) \<le> length (filter Q xs)"
  by (induction xs) auto

lemma trim_Nil: "trim [] = []"
  by (simp add: trim_def)

lemma nonblank_le_nonEmpty:
  "length (filter (\<lambda>row. trim row \<noteq> []) (split (CHR 0x0A) data)) \<le> length (nonEmptyLines data)"
  unfolding nonEmptyLines_def
  by (rule length_filter_mono) (auto simp: trim_Nil)

lemma TableRenderer_few_rows:
  assumes "length (filter (\<lambda>row. trim row \<noteq> []) (split (CHR 0x0A) data)) < 2"
  shows "TableRenderer data ttl = InvalidTable"
  using assms by (simp add: TableRenderer_def TableRenderer_try_def Let_def)

lemma trim_Year: "trim ''Year'' = ''Year''"
  by (simp add: trim_def isWhiteSpace_def)

lemma trim_Revenue: "trim ''Revenue'' = ''Revenue''"
  by (simp add: trim_def isWhiteSpace_def)

lemma trim_2022: "trim ''2022'' = ''2022''"
  by (simp add: trim_def isWhiteSpace_def)

lemma trim_2023: "trim ''2023'' = ''2023''"
  by (simp add: trim_def isWhiteSpace_def)

lemma trim_5M: "trim ''5M'' = ''5M''"
  by (simp add: trim_def isWhiteSpace_def)

lemma trim_8M: "trim ''8M'' = ''8M''"
  by (simp add: trim_def isWhiteSpace_def)

lemma trim_row0: "trim ''Year,Revenue'' = ''Year,Revenue''"
  by (simp add: trim_def isWhiteSpace_def)

lemma trim_row1: "trim ''2022,5M'' = ''2022,5M''"
  by (simp add: trim_def isWhiteSpace_def)

lemma trim_row2: "trim ''2023,8M'' = ''2023,8M''"
  by (simp add: trim_def isWhiteSpace_def)

lemma split_example:
  "split (CHR 0x0A) ''Year,Revenue\<newline>2022,5M\<newline>2023,8M'' =
     [''Year,Revenue'', ''2022,5M'', ''2023,8M'']"
  by simp

lemma TableRenderer_example:
  "TableRenderer ''Year,Revenue\<newline>2022,5M\<newline>2023,8M'' ttl =
     TableView ttl [''Year'', ''Revenue''] [ [''2022'', ''5M''], [''2023'', ''8M''] ]"
  unfolding TableRenderer_def TableRenderer_try_def split_example
  by (simp add: trim_row0 trim_row1 trim_row2 trim_Year trim_Revenue trim_2022 trim_2023
      trim_5M trim_8M)



lemma split_notin: "c \<notin> set x \<Longrightarrow> split c x = [x]"
  by (induction x) auto

lemma split_append_sep:
  "c \<notin> set x \<Longrightarrow> split c (x @ c # ys) = x # split c ys"
  by (induction x) auto

lemma split_join:
  "xs \<noteq> [] \<Longrightarrow> (\<And>x. x \<in> set xs \<Longrightarrow> c \<notin> set x) \<Longrightarrow> split c (join [c] xs) = xs"
proof (induction "[c]" xs rule: join.induct)
  case 1
  then show ?case by simp
next
  case (2 x)
  then show ?case by (simp add: split_notin)
next
  case (3 x y ys)
  then show ?case by (simp add: split_append_sep)
qed

lemma dropWhile_all: "(\<forall>x\<in>set (dropWhile P s). P x) \<longleftrightarrow> (\<forall>x\<in>set s. P x)"
  by (induction s) auto

lemma trim_blank: "trim s = [] \<longleftrightarrow> blank s"
  by (simp add: trim_def blank_def list_all_iff dropWhile_eq_Nil_conv dropWhile_all)

lemma dropWhile_padded:
  assumes "\<forall>x\<in>set a. P x" and "m \<noteq> []" and "\<not> P (hd m)"
  shows "dropWhile P (a @ m @ b) = m @ b"
proof -
  have "dropWhile P (a @ m @ b) = dropWhile P (m @ b)"
    using assms(1) by (simp add: dropWhile_append2)
  also have "\<dots> = m @ b"
    using assms(2,3) by (cases m) auto
  finally show ?thesis .
qed

lemma trim_padded:
  assumes "list_all isWhiteSpace a" and "list_all isWhiteSpace b"
    and "m = [] \<or> \<not> isWhiteSpace (hd m) \<and> \<not> isWhiteSpace (last m)"
  shows "trim (a @ m @ b) = m"
proof (cases "m = []")
  case True
  then have "blank (a @ m @ b)" using assms by (simp add: blank_def)
  then show ?thesis using True trim_blank by simp
next
  case False
  then have h: "\<not> isWhiteSpace (hd m)" and l: "\<not> isWhiteSpace (last m)" using assms by auto
  have 1: "dropWhile isWhiteSpace (a @ m @ b) = m @ b"
    using assms(1) False h by (intro dropWhile_padded) (auto simp: list_all_iff)
  have "dropWhile isWhiteSpace (rev b @ rev m @ []) = rev m @ []"
    using assms(2) False l by (intro dropWhile_padded) (auto simp: list_all_iff hd_rev)
  then have 2: "dropWhile isWhiteSpace (rev b @ rev m) = rev m"
    by simp
  show ?thesis by (simp add: trim_def 1 2)
qed

lemma not_ws_comma: "\<not> isWhiteSpace (CHR '','')"
  by (simp add: isWhiteSpace_def)

lemma padding_ws: "padding s \<Longrightarrow> list_all isWhiteSpace s"
  by (simp add: padding_def list_all_iff)

lemma padding_no_sep: "padding s \<Longrightarrow> CHR '','' \<notin> set s \<and> CHR 0x0A \<notin> set s"
  using not_ws_comma by (auto simp: padding_def list_all_iff)

lemma trim_cell: "cellOk c \<Longrightarrow> trim (cellText c) = cellContent c"
  by (cases c) (simp add: cellOk_def cellText_def cellContent_def trim_padded padding_ws)

lemma cell_no_sep: "cellOk c \<Longrightarrow> CHR '','' \<notin> set (cellText c) \<and> CHR 0x0A \<notin> set (cellText c)"
  using padding_no_sep by (cases c) (auto simp: cellOk_def cellText_def)

lemma set_join: "set (join sep xs) \<subseteq> set sep \<union> \<Union> (set ` set xs)"
  by (induction sep xs rule: join.induct) auto

lemma row_no_LF:
  assumes "\<forall>c\<in>set r. cellOk c"
  shows "CHR 0x0A \<notin> set (rowText r)"
proof
  assume "CHR 0x0A \<in> set (rowText r)"
  then have "CHR 0x0A \<in> set '','' \<union> \<Union> (set ` set (map cellText r))"
    unfolding rowText_def using set_join by blast
  then obtain c where "c \<in> set r" and "CHR 0x0A \<in> set (cellText c)"
    by auto
  then show False using assms cell_no_sep by blast
qed

lemma split_row:
  assumes "\<forall>c\<in>set r. cellOk c" and "r \<noteq> []"
  shows "map trim (split (CHR '','') (rowText r)) = map cellContent r"
proof -
  have "split (CHR '','') (join [CHR '',''] (map cellText r)) = map cellText r"
    using assms cell_no_sep by (intro split_join) auto
  then have "split (CHR '','') (rowText r) = map cellText r"
    by (simp add: rowText_def)
  then show ?thesis
    using assms(1) by (simp add: trim_cell)
qed

lemma split_table:
  assumes "\<forall>r\<in>set t. \<forall>c\<in>set r. cellOk c" and "t \<noteq> []"
  shows "split (CHR 0x0A) (tableText t) = map rowText t"
proof -
  have "split (CHR 0x0A) (join [CHR 0x0A] (map rowText t)) = map rowText t"
    using assms row_no_LF by (intro split_join) auto
  then show ?thesis
    by (simp add: tableText_def)
qed

lemma rowText_Nil_blank: "blank (rowText [])"
  by (simp add: rowText_def blank_def)

lemma TableRenderer_table:
  assumes "\<forall>r\<in>set t. \<forall>c\<in>set r. cellOk c"
  shows "TableRenderer_try (tableText t) ttl =
     Inr (let rows = filter (\<lambda>r. \<not> blank (rowText r)) t in
          if length rows < 2 then InvalidTable
          else TableView ttl (map cellContent (hd rows)) (map (map cellContent) (tl rows)))"
proof (cases "t = []")
  case True
  then show ?thesis
    by (simp add: TableRenderer_try_def tableText_def trim_def)
next
  case False
  let ?rows = "filter (\<lambda>r. \<not> blank (rowText r)) t"
  have lines: "filter (\<lambda>row. trim row \<noteq> []) (split (CHR 0x0A) (tableText t)) = map rowText ?rows"
    using split_table [OF assms False] by (simp add: trim_blank filter_map comp_def)
  have ne: "\<forall>r\<in>set ?rows. r \<noteq> [] \<and> (\<forall>c\<in>set r. cellOk c)"
    using assms rowText_Nil_blank by auto
  show ?thesis
  proof (cases ?rows)
    case Nil
    then show ?thesis
      by (simp add: TableRenderer_try_def lines)
  next
    case (Cons r0 rest)
    then have r0: "map trim (split (CHR '','') (rowText r0)) = map cellContent r0"
      using ne by (intro split_row) auto
    have rest: "map (\<lambda>row. map trim (split (CHR '','') row)) (map rowText rest)
        = map (map cellContent) rest"
      using ne Cons by (auto intro!: split_row)
    show ?thesis
      using r0 rest by (simp add: TableRenderer_try_def lines Cons Let_def)
  qed
qed


lemma split_not_Nil: "split c s \<noteq> []"
  by (induction s) (auto split: list.splits)

lemma join_split: "join [c] (split c s) = s"
proof (induction s)
  case Nil
  then show ?case by simp
next
  case (Cons x xs)
  obtain y ys where sp: "split c xs = y # ys"
    using split_not_Nil [of c xs] by (cases "split c xs") auto
  show ?case
  proof (cases ys)
    case Nil
    then show ?thesis using Cons sp by auto
  next
    case (Cons z zs)
    then show ?thesis using Cons.IH sp by auto
  qed
qed

lemma split_no_sep: "\<forall>x\<in>set (split c s). c \<notin> set x"
  by (induction s) (auto split: list.splits)

lemma split_subset: "\<forall>x\<in>set (split c s). set x \<subseteq> set s"
  by (induction s) (auto split: list.splits)


lemma cell_exists:
  assumes "CHR '','' \<notin> set s" and "CHR 0x0A \<notin> set s"
  shows "\<exists>c. cellOk c \<and> cellText c = s"
proof -
  let ?a = "takeWhile isWhiteSpace s"
  let ?d = "dropWhile isWhiteSpace s"
  let ?b = "takeWhile isWhiteSpace (rev ?d)"
  let ?m = "dropWhile isWhiteSpace (rev ?d)"
  have "rev (?b @ ?m) = ?d"
    by (simp only: takeWhile_dropWhile_id rev_rev_ident)
  then have md: "rev ?m @ rev ?b = ?d"
    by (simp only: rev_append)
  have s: "s = ?a @ rev ?m @ rev ?b"
    unfolding md by simp
  have sub_d: "set ?d \<subseteq> set s"
    by (auto dest: set_dropWhileD)
  have sub_m: "set ?m \<subseteq> set s"
    using sub_d by (auto dest!: set_dropWhileD)
  have sub_b: "set ?b \<subseteq> set s"
    using sub_d by (auto dest!: set_takeWhileD)
  have pa: "padding ?a"
    using assms(2) by (auto simp: padding_def list_all_iff dest: set_takeWhileD)
  have pb: "padding (rev ?b)"
    using assms(2) sub_b by (auto simp: padding_def list_all_iff dest: set_takeWhileD)
  have ends: "\<not> isWhiteSpace (hd (rev ?m)) \<and> \<not> isWhiteSpace (last (rev ?m))" if ne: "?m \<noteq> []"
  proof -
    have l: "\<not> isWhiteSpace (hd ?m)"
      using ne by (rule hd_dropWhile)
    have "last (?b @ ?m) = last ?m"
      using ne by (rule last_appendR)
    then have "last (rev ?d) = last ?m"
      by (simp only: takeWhile_dropWhile_id)
    moreover have "?d \<noteq> []"
    proof
      assume "?d = []"
      then have "?m = []" by (simp only: rev.simps dropWhile.simps)
      with ne show False by simp
    qed
    ultimately have "last ?m = hd ?d"
      by (simp add: last_rev)
    moreover have "\<not> isWhiteSpace (hd ?d)"
      using \<open>?d \<noteq> []\<close> by (rule hd_dropWhile)
    ultimately show ?thesis
      using l ne by (simp add: hd_rev last_rev)
  qed
  have "cellOk (?a, rev ?m, rev ?b)"
    unfolding cellOk_def using pa pb ends sub_m assms by auto
  moreover have "cellText (?a, rev ?m, rev ?b) = s"
    using s by (simp add: cellText_def)
  ultimately show ?thesis by blast
qed

lemma map_exists:
  "\<forall>x\<in>set xs. \<exists>c. P c \<and> f c = x \<Longrightarrow> \<exists>cs. (\<forall>c\<in>set cs. P c) \<and> map f cs = xs"
proof (induction xs)
  case Nil
  then show ?case by simp
next
  case (Cons x xs)
  from Cons.prems obtain c where c: "P c" "f c = x"
    by auto
  from Cons.prems have "\<forall>x\<in>set xs. \<exists>c. P c \<and> f c = x"
    by simp
  then obtain cs where cs: "\<forall>c\<in>set cs. P c" "map f cs = xs"
    using Cons.IH by blast
  have "(\<forall>c\<in>set (c # cs). P c) \<and> map f (c # cs) = x # xs"
    using c cs by simp
  then show ?case by (rule exI)
qed

lemma row_exists:
  assumes "CHR 0x0A \<notin> set l"
  shows "\<exists>r. (\<forall>c\<in>set r. cellOk c) \<and> rowText r = l"
proof -
  have "\<forall>x\<in>set (split (CHR '','') l). \<exists>c. cellOk c \<and> cellText c = x"
  proof
    fix x
    assume x: "x \<in> set (split (CHR '','') l)"
    then have "CHR '','' \<notin> set x"
      using split_no_sep [of "CHR '',''" l] by blast
    moreover have "CHR 0x0A \<notin> set x"
      using x split_subset [of "CHR '',''" l] assms by blast
    ultimately show "\<exists>c. cellOk c \<and> cellText c = x"
      by (rule cell_exists)
  qed
  then have "\<exists>r. (\<forall>c\<in>set r. cellOk c) \<and> map cellText r = split (CHR '','') l"
    by (rule map_exists)
  then obtain r where r: "\<forall>c\<in>set r. cellOk c" "map cellText r = split (CHR '','') l"
    by blast
  then have "rowText r = l"
    using join_split [of "CHR '',''" l] by (simp add: rowText_def)
  with r(1) have "(\<forall>c\<in>set r. cellOk c) \<and> rowText r = l" ..
  then show ?thesis by (rule exI)
qed

lemma table_exists: "\<exists>t. (\<forall>r\<in>set t. \<forall>c\<in>set r. cellOk c) \<and> tableText t = data"
proof -
  have "\<forall>l\<in>set (split (CHR 0x0A) data). \<exists>r. (\<forall>c\<in>set r. cellOk c) \<and> rowText r = l"
  proof
    fix l
    assume "l \<in> set (split (CHR 0x0A) data)"
    then have "CHR 0x0A \<notin> set l"
      using split_no_sep [of "CHR 0x0A" data] by blast
    then show "\<exists>r. (\<forall>c\<in>set r. cellOk c) \<and> rowText r = l"
      by (rule row_exists)
  qed
  then have "\<exists>t. (\<forall>r\<in>set t. \<forall>c\<in>set r. cellOk c) \<and> map rowText t = split (CHR 0x0A) data"
    by (rule map_exists)
  then obtain t where t: "\<forall>r\<in>set t. \<forall>c\<in>set r. cellOk c"
      "map rowText t = split (CHR 0x0A) data"
    by blast
  then have "tableText t = data"
    using join_split [of "CHR 0x0A" data] by (simp add: tableText_def)
  with t(1) have "(\<forall>r\<in>set t. \<forall>c\<in>set r. cellOk c) \<and> tableText t = data" ..
  then show ?thesis by (rule exI)
qed


lemma TableRenderer_try_Inr: "\<exists>v. TableRenderer_try data ttl = Inr v"
  by (simp add: TableRenderer_try_def Let_def split: list.splits)

lemma TableRenderer_invalid_iff:
  "TableRenderer data ttl = InvalidTable \<longleftrightarrow>
     length (filter (\<lambda>row. \<not> blank row) (split (CHR 0x0A) data)) < 2"
  by (simp add: TableRenderer_def TableRenderer_try_def Let_def trim_blank split: list.splits)

lemma trim_spaced:
  "trim '' Year , Revenue '' = ''Year , Revenue''"
  "trim ''2022 ,  5M'' = ''2022 ,  5M''"
  "trim ''   '' = []"
  "trim '' 2023,8M '' = ''2023,8M''"
  "trim '' Year '' = ''Year''"
  "trim '' Revenue '' = ''Revenue''"
  "trim ''2022 '' = ''2022''"
  "trim ''  5M'' = ''5M''"
  "trim '' 2023'' = ''2023''"
  "trim ''8M '' = ''8M''"
  by (simp_all add: trim_def isWhiteSpace_def)

lemma TableRenderer_spaced:
  "TableRenderer '' Year , Revenue \<newline>\<newline>2022 ,  5M\<newline>   \<newline> 2023,8M \<newline>'' ttl =
     TableView ttl [''Year'', ''Revenue''] [ [''2022'', ''5M''], [''2023'', ''8M''] ]"
proof -
  have "split (CHR 0x0A) '' Year , Revenue \<newline>\<newline>2022 ,  5M\<newline>   \<newline> 2023,8M \<newline>'' =
     ['' Year , Revenue '', [], ''2022 ,  5M'', ''   '', '' 2023,8M '', [] ]"
    by simp
  then show ?thesis
    unfolding TableRenderer_def TableRenderer_try_def
    by (simp add: trim_spaced trim_Nil)
qed

lemma exampleCells:
  "\<forall>r\<in>set [ [('' '', ''Year'', '' ''), ('' '', ''Revenue'', [])],
               [([], [], '' '')],
               [([], ''2022'', '' ''), (''  '', ''5M'', [])] ]. \<forall>c\<in>set r. cellOk c"
  by (simp add: cellOk_def padding_def isWhiteSpace_def)

lemma exampleCells_text:
  "tableText [ [('' '', ''Year'', '' ''), ('' '', ''Revenue'', [])],
               [([], [], '' '')],
               [([], ''2022'', '' ''), (''  '', ''5M'', [])] ] =
     '' Year , Revenue\<newline> \<newline>2022 ,  5M''"
  by (simp add: tableText_def rowText_def cellText_def)

text \<open>
  Claim C5.  The chart data \<^verbatim>\<open>"Year,Revenue\n2022,5M\n2023,8M"\<close> is rendered as the table
  with header cells \<open>Year\<close>, \<open>Revenue\<close> and exactly the two body rows \<open>2022, 5M\<close> and
  \<open>2023, 8M\<close>, and so is the same data with white space around the cells and with empty
  and blank lines between the rows.  Every input with fewer than two non-empty lines is
  rendered as the "Table data is invalid." paragraph; the renderer never throws, so it
  never reaches its \<^verbatim>\<open>catch\<close> branch, and it renders that paragraph exactly when fewer
  than two lines have something other than white space.  In general, every string is the
  text of a table of cells with white space around them, and such a text is rendered as
  the table of the contents of the cells, without the white space around them, of the
  rows that are not blank: the first of them as the header, the others as the body.
\<close>

theorem C5_TableRenderer:
  "TableRenderer ''Year,Revenue\<newline>2022,5M\<newline>2023,8M'' ttl =
     TableView ttl [''Year'', ''Revenue''] [ [''2022'', ''5M''], [''2023'', ''8M''] ]
   \<and> TableRenderer '' Year , Revenue \<newline>\<newline>2022 ,  5M\<newline>   \<newline> 2023,8M \<newline>'' ttl =
     TableView ttl [''Year'', ''Revenue''] [ [''2022'', ''5M''], [''2023'', ''8M''] ]
   \<and> (length (nonEmptyLines data) < 2 \<longrightarrow>
        TableRenderer_try data ttl' = Inr InvalidTable \<and>
        TableRenderer data ttl' = InvalidTable)
   \<and> (\<exists>v. TableRenderer_try data ttl' = Inr v)
   \<and> (TableRenderer data ttl' = InvalidTable \<longleftrightarrow>
        length (filter (\<lambda>row. \<not> blank row) (split (CHR 0x0A) data)) < 2)
   \<and> (\<exists>t. (\<forall>r\<in>set t. \<forall>c\<in>set r. cellOk c) \<and> tableText t = data)
   \<and> ((\<forall>r\<in>set t. \<forall>c\<in>set r. cellOk c) \<longrightarrow>
        TableRenderer (tableText t) ttl' =
          (let rows = filter (\<lambda>r. \<not> blank (rowText r)) t in
           if length rows < 2 then InvalidTable
           else TableView ttl' (map cellContent (hd rows)) (map (map cellContent) (tl rows))))"
proof (intro conjI impI)
  show "TableRenderer ''Year,Revenue\<newline>2022,5M\<newline>2023,8M'' ttl =
     TableView ttl [''Year'', ''Revenue''] [ [''2022'', ''5M''], [''2023'', ''8M''] ]"
    by (rule TableRenderer_example)
next
  show "TableRenderer '' Year , Revenue \<newline>\<newline>2022 ,  5M\<newline>   \<newline> 2023,8M \<newline>'' ttl =
     TableView ttl [''Year'', ''Revenue''] [ [''2022'', ''5M''], [''2023'', ''8M''] ]"
    by (rule TableRenderer_spaced)
next
  assume few: "length (nonEmptyLines data) < 2"
  have rows: "length (filter (\<lambda>row. trim row \<noteq> []) (split (CHR 0x0A) data)) < 2"
    using few nonblank_le_nonEmpty [of data] by linarith
  then show "TableRenderer_try data ttl' = Inr InvalidTable"
    by (simp add: TableRenderer_try_def Let_def)
  from rows show "TableRenderer data ttl' = InvalidTable"
    by (rule TableRenderer_few_rows)
next
  show "\<exists>v. TableRenderer_try data ttl' = Inr v"
    by (rule TableRenderer_try_Inr)
next
  show "TableRenderer data ttl' = InvalidTable \<longleftrightarrow>
        length (filter (\<lambda>row. \<not> blank row) (split (CHR 0x0A) data)) < 2"
    by (rule TableRenderer_invalid_iff)
next
  show "\<exists>t. (\<forall>r\<in>set t. \<forall>c\<in>set r. cellOk c) \<and> tableText t = data"
    by (rule table_exists)
next
  assume "\<forall>r\<in>set t. \<forall>c\<in>set r. cellOk c"
  then show "TableRenderer (tableText t) ttl' =
          (let rows = filter (\<lambda>r. \<not> blank (rowText r)) t in
           if length rows < 2 then InvalidTable
           else TableView ttl' (map cellContent (hd rows)) (map (map cellContent) (tl rows)))"
    by (simp add: TableRenderer_def TableRenderer_table)
qed

theorem C5_TableRenderer_witness:
  "length (nonEmptyLines ''Year,Revenue'') < 2
   \<and> TableRenderer ''Year,Revenue'' ''Sales'' = InvalidTable
   \<and> TableRenderer ''Year,Revenue\<newline>2022,5M\<newline>2023,8M'' ''Sales'' =
       TableView ''Sales'' [''Year'', ''Revenue''] [ [''2022'', ''5M''], [''2023'', ''8M''] ]
   \<and> TableRenderer '' Year , Revenue\<newline> \<newline>2022 ,  5M'' ''Sales'' =
       TableView ''Sales'' [''Year'', ''Revenue''] [ [''2022'', ''5M''] ]"
proof -
  have few: "length (nonEmptyLines ''Year,Revenue'') < 2"
    by (simp add: nonEmptyLines_def)
  note inst = C5_TableRenderer [of "''Sales''" "''Year,Revenue''" "''Sales''"
      "[ [('' '', ''Year'', '' ''), ('' '', ''Revenue'', [])],
         [([], [], '' '')],
         [([], ''2022'', '' ''), (''  '', ''5M'', [])] ]"]
  have 1: "TableRenderer ''Year,Revenue'' ''Sales'' = InvalidTable"
    using inst few by blast
  have 2: "TableRenderer ''Year,Revenue\<newline>2022,5M\<newline>2023,8M'' ''Sales'' =
       TableView ''Sales'' [''Year'', ''Revenue''] [ [''2022'', ''5M''], [''2023'', ''8M''] ]"
    using inst by blast
  have "TableRenderer (tableText [ [('' '', ''Year'', '' ''), ('' '', ''Revenue'', [])],
         [([], [], '' '')],
         [([], ''2022'', '' ''), (''  '', ''5M'', [])] ]) ''Sales'' =
       (let rows = filter (\<lambda>r. \<not> blank (rowText r))
           [ [('' '', ''Year'', '' ''), ('' '', ''Revenue'', [])],
             [([], [], '' '')],
             [([], ''2022'', '' ''), (''  '', ''5M'', [])] ] in
           if length rows < 2 then InvalidTable
           else TableView ''Sales'' (map cellContent (hd rows)) (map (map cellContent) (tl rows)))"
    using inst exampleCells by blast
  then have 3: "TableRenderer '' Year , Revenue\<newline> \<newline>2022 ,  5M'' ''Sales'' =
       TableView ''Sales'' [''Year'', ''Revenue''] [ [''2022'', ''5M''] ]"
    unfolding exampleCells_text
    by (simp add: rowText_def cellText_def cellContent_def blank_def isWhiteSpace_def)
  show ?thesis
    using few 1 2 3 by simp
qed


section \<open>Properties of the video id\<close>

text \<open>
  Claim C10.  Extracting the video id never throws, whatever the string: it returns the
  empty string when \<^verbatim>\<open>new URL\<close> throws; the path without its first code unit (the
  leading slash) when the host name is \<open>youtu.be\<close>; and otherwise the value of the
  query parameter \<open>v\<close>, or the empty string when there is none.
\<close>

theorem C10_videoId:
  "(\<exists>v. videoId newURL s = Inr v)
   \<and> (\<forall>e. newURL s = Inl e \<longrightarrow> videoId newURL s = Inr [])
   \<and> (\<forall>url. newURL s = Inr url \<and> hostname url = ''youtu.be'' \<longrightarrow>
         videoId newURL s = Inr (drop 1 (pathname url)) \<and>
         (\<forall>p. pathname url = CHR ''/'' # p \<longrightarrow> videoId newURL s = Inr p))
   \<and> (\<forall>url. newURL s = Inr url \<and> hostname url \<noteq> ''youtu.be'' \<longrightarrow>
         (\<forall>v. searchParams_get url ''v'' = Some v \<longrightarrow> videoId newURL s = Inr v) \<and>
         (searchParams_get url ''v'' = None \<longrightarrow> videoId newURL s = Inr []))"
proof (cases "newURL s")
  case (Inl e)
  then have "videoId newURL s = Inr []"
    by (simp add: videoId_def videoId_try_def)
  then show ?thesis
    using Inl by simp
next
  case (Inr url)
  show ?thesis
  proof (cases "hostname url = ''youtu.be''")
    case True
    then have "videoId newURL s = Inr (drop 1 (pathname url))"
      using Inr by (simp add: videoId_def videoId_try_def)
    then show ?thesis
      using Inr True by auto
  next
    case False
    then have v: "videoId newURL s = Inr (orElse (searchParams_get url ''v'') [])"
      using Inr by (simp add: videoId_def videoId_try_def)
    have "orElse (Some v) [] = v" for v :: string
      by (simp add: orElse_def)
    moreover have "orElse None [] = []"
      by (simp add: orElse_def)
    ultimately show ?thesis
      using Inr False v by auto
  qed
qed

theorem C10_videoId_witness:
  "videoId (\<lambda>u. if u = ''https://youtu.be/p1yCOdp2vs0''
                 then Inr \<lparr>hostname = ''youtu.be'', pathname = ''/p1yCOdp2vs0'', searchParams = []\<rparr>
                 else Inl (TypeError ''Invalid URL'')) ''https://youtu.be/p1yCOdp2vs0''
     = Inr ''p1yCOdp2vs0''
   \<and> videoId (\<lambda>u. if u = ''https://youtu.be/p1yCOdp2vs0''
                 then Inr \<lparr>hostname = ''youtu.be'', pathname = ''/p1yCOdp2vs0'', searchParams = []\<rparr>
                 else Inl (TypeError ''Invalid URL'')) ''not a url'' = Inr []"
  using
    C10_videoId [of "\<lambda>u. if u = ''https://youtu.be/p1yCOdp2vs0''
                 then Inr \<lparr>hostname = ''youtu.be'', pathname = ''/p1yCOdp2vs0'', searchParams = []\<rparr>
                 else Inl (TypeError ''Invalid URL'')" "''https://youtu.be/p1yCOdp2vs0''"]
    C10_videoId [of "\<lambda>u. if u = ''https://youtu.be/p1yCOdp2vs0''
                 then Inr \<lparr>hostname = ''youtu.be'', pathname = ''/p1yCOdp2vs0'', searchParams = []\<rparr>
                 else Inl (TypeError ''Invalid URL'')" "''not a url''"]
  by simp



section \<open>Events and renders of a run\<close>

lemma awaited_append: "awaited (xs @ ys) = awaited xs @ awaited ys"
  by (induction xs rule: awaited.induct) auto

lemma evaluateComprehensiveTest_events:
  "snd (evaluateComprehensiveTest e tc ans) =
     [Request_generateContent (EvaluationRequest tc ans)]"
  by (simp add: evaluateComprehensiveTest_def Let_def)

lemma getPracticePlan_events:
  "filter isInvoke (snd (getPracticePlan e ev)) = [] \<and> awaited (snd (getPracticePlan e ev)) = []"
  by (simp add: getPracticePlan_def Let_def)

lemma startTest_failure:
  assumes "fst (generateComprehensiveTest e url script type) = Inl x
     \<or> (\<exists>t y. fst (generateComprehensiveTest e url script type) = Inr t \<and>
              cd_type (chartData (task1 (writing t))) \<noteq> Table \<and>
              fst (generateChartImage e (chartData (task1 (writing t)))) = Inl y)"
  shows "fst (startTest e url script type a) = generationFailed (startTest_begin url type a)"
  using assms by (auto simp: startTest_def Let_def split: prod.splits sum.splits)

lemma startTest_awaited_Generating:
  "awaited (snd (startTest e url script type a)) \<noteq> [] \<and>
   (\<forall>s \<in> set (awaited (snd (startTest e url script type a))). appState s = Generating)"
  by (auto simp: startTest_def Let_def awaited_append generateComprehensiveTest_def
      generateChartImage_def startTest_begin_def
      split: prod.splits sum.splits option.splits list.splits)

lemma handleTestComplete_subjective:
  assumes "comprehensiveTest a = Some tc" and "testType a = Some type"
    and "type = WritingOnly \<or> type = SpeakingOnly \<or> type = Full"
  shows "handleTestComplete e ans a =
     (let a2 = a\<lparr>userAnswers := Some ans, error := None, appState := Evaluating\<rparr>;
          tr1 = [Invoke_evaluateComprehensiveTest tc ans]
                @ snd (evaluateComprehensiveTest e tc ans) @ [Await a2]
      in case fst (evaluateComprehensiveTest e tc ans) of
           Inl x \<Rightarrow> (evaluationFailed a2, tr1)
         | Inr evalResult \<Rightarrow>
             (let a3 = a2\<lparr>evaluation := Some evalResult\<rparr>;
                  tr2 = tr1 @ [Invoke_getPracticePlan evalResult]
                        @ snd (getPracticePlan e evalResult) @ [Await a3]
              in case fst (getPracticePlan e evalResult) of
                   Inl x \<Rightarrow> (evaluationFailed a3, tr2)
                 | Inr practiceResult \<Rightarrow>
                     (a3\<lparr>practicePlan := Some practiceResult, appState := Results\<rparr>, tr2)))"
  using assms by (auto simp: handleTestComplete_def Let_def split: prod.splits sum.splits)

lemma handleTestComplete_failure:
  assumes "comprehensiveTest a = Some tc" and "testType a = Some type"
    and "type = WritingOnly \<or> type = SpeakingOnly \<or> type = Full"
    and "evaluationFails e tc ans"
  shows "appState (fst (handleTestComplete e ans a)) = Test
    \<and> error (fst (handleTestComplete e ans a)) =
        Some ''An error occurred during evaluation. Please try again.''
    \<and> userAnswers (fst (handleTestComplete e ans a)) = Some ans
    \<and> comprehensiveTest (fst (handleTestComplete e ans a)) = Some tc
    \<and> testType (fst (handleTestComplete e ans a)) = Some type
    \<and> videoUrl (fst (handleTestComplete e ans a)) = videoUrl a
    \<and> awaited (snd (handleTestComplete e ans a)) \<noteq> []
    \<and> (\<forall>s \<in> set (awaited (snd (handleTestComplete e ans a))). appState s = Evaluating)"
  using assms unfolding handleTestComplete_subjective [OF assms(1-3)]
  by (auto simp: Let_def awaited_append evaluateComprehensiveTest_events getPracticePlan_events
      evaluationFailed_def evaluationFails_def split: sum.splits)

lemma renderContent_loader:
  "appState a = Evaluating \<or> appState a = Generating \<Longrightarrow>
     \<exists>m. ui_screen (renderContent e a old) = Loader m"
  by (auto simp: renderContent_def)

lemma foldl_loader:
  assumes "ss \<noteq> []" and "\<forall>s \<in> set ss. appState s = Evaluating \<or> appState s = Generating"
  shows "\<exists>m. foldl (\<lambda>scr a'. ui_screen (renderContent e a' scr)) old ss = Loader m"
  using assms
proof (induction ss rule: rev_induct)
  case Nil
  then show ?case by simp
next
  case (snoc s ss)
  then show ?case by (simp add: renderContent_loader)
qed

lemma rerender_Test:
  assumes "awaited tr \<noteq> []"
    and "\<forall>s \<in> set (awaited tr). appState s = Evaluating \<or> appState s = Generating"
    and "appState a = Test" and "comprehensiveTest a = Some tc" and "testType a = Some type"
    and "videoUrl a \<noteq> []"
  shows "rerender e old tr a = \<lparr>ui_app = a, ui_screen = TestScreen (initialTestScreen e type)\<rparr>"
proof -
  obtain m where "foldl (\<lambda>scr a'. ui_screen (renderContent e a' scr)) old (awaited tr) = Loader m"
    using foldl_loader [OF assms(1,2)] by blast
  then show ?thesis
    using assms(3-6) by (simp add: rerender_def renderContent_def)
qed

lemma rerender_Welcome:
  assumes "awaited tr \<noteq> []"
    and "\<forall>s \<in> set (awaited tr). appState s = Evaluating \<or> appState s = Generating"
    and "appState a = Welcome"
  shows "rerender e old tr a = \<lparr>ui_app = a, ui_screen = WelcomeScreen initialWelcomeScreen\<rparr>"
proof -
  obtain m where "foldl (\<lambda>scr a'. ui_screen (renderContent e a' scr)) old (awaited tr) = Loader m"
    using foldl_loader [OF assms(1,2)] by blast
  then show ?thesis
    using assms(3) by (simp add: rerender_def renderContent_def)
qed


section \<open>Facts about the example inputs\<close>

lemma trim_id:
  assumes "s \<noteq> []" and "\<not> isWhiteSpace (hd s)" and "\<not> isWhiteSpace (last s)"
  shows "trim s = s"
proof -
  have front: "dropWhile isWhiteSpace s = s"
    using assms(1,2) by (cases s) auto
  have "rev s \<noteq> []" and "\<not> isWhiteSpace (hd (rev s))"
    using assms(1,3) by (simp_all add: hd_rev)
  then have "dropWhile isWhiteSpace (rev s) = rev s"
    by (cases "rev s") auto
  then show ?thesis
    by (simp add: trim_def front)
qed

lemma trim_exampleEvaluationJson: "trim exampleEvaluationJson = exampleEvaluationJson"
  by (rule trim_id) (simp_all add: exampleEvaluationJson_def isWhiteSpace_def)

lemma trim_examplePlanJson: "trim examplePlanJson = examplePlanJson"
  by (rule trim_id) (simp_all add: examplePlanJson_def isWhiteSpace_def)

lemma trim_exampleChartTestJson: "trim exampleChartTestJson = exampleChartTestJson"
  by (rule trim_id) (simp_all add: exampleChartTestJson_def isWhiteSpace_def)

lemma regex_default_url:
  "regex_test youtubeRegex ''https://youtu.be/p1yCOdp2vs0?si=pKV47XzCq44ERMGO''"
  by (simp add: regex_test_def youtubeRegex_def seq_def opt_def lit_def alt_def dotPlus_def
      dot_def isLineTerminator_def)

lemma trim_exampleWelcome: "length (trim (w_transcript exampleWelcome)) = 66"
proof -
  have "trim (w_transcript exampleWelcome) = w_transcript exampleWelcome"
    by (rule trim_id) (simp_all add: exampleWelcome_def isWhiteSpace_def)
  then show ?thesis by (simp add: exampleWelcome_def)
qed

lemma validInput_exampleWelcome: "validInput exampleWelcome"
  using regex_default_url trim_exampleWelcome
  by (simp add: validInput_def exampleWelcome_def initialWelcomeScreen_def)

lemma invalid_initialWelcomeScreen: "\<not> validInput initialWelcomeScreen"
  by (simp add: validInput_def initialWelcomeScreen_def trim_def)

lemma exampleApp_fields:
  "comprehensiveTest exampleApp = Some exampleTest" "testType exampleApp = Some SpeakingOnly"
  "videoUrl exampleApp \<noteq> []" "appState exampleApp = Test"
  by (simp_all add: exampleApp_def)

lemma exampleUI_fields:
  "ui_screen exampleUI = TestScreen exampleTestScreen" "ui_app exampleUI = exampleApp"
  by (simp_all add: exampleUI_def)

lemma exampleStep:
  "testScreen_step exampleTest SpeakingOnly NextSpeakingQuestionClick exampleTestScreen =
     (exampleTestScreen\<lparr>answers := exampleSubmitted\<rparr>, Some exampleSubmitted)"
  by (simp add: testScreen_step_def handleNextSpeakingQuestion_def elemAt_def exampleTest_def
      exampleTestScreen_def initialTestScreen_def exampleSubmitted_def exampleQuestion_def
      initialAnswers_def
      Let_def)

lemma offline_evaluationFails: "evaluationFails offline tc ans"
  by (simp add: evaluationFails_def evaluateComprehensiveTest_def offline_def Let_def)

lemma exampleSubmitted_not_initial: "exampleSubmitted \<noteq> initialAnswers"
proof
  assume "exampleSubmitted = initialAnswers"
  then have "ans_speaking exampleSubmitted = ans_speaking initialAnswers" by simp
  then show False by (simp add: exampleSubmitted_def initialAnswers_def)
qed

lemma exampleEnv_evaluate:
  "fst (evaluateComprehensiveTest exampleEnv tc ans) = Inr exampleEvaluation"
  by (simp add: evaluateComprehensiveTest_def exampleEnv_def Let_def trim_exampleEvaluationJson)

lemma exampleEvaluation_weak:
  "filter (\<lambda>s. score s < 7.5) (detailedScores exampleEvaluation) =
     detailedScores exampleEvaluation"
  by (simp add: exampleEvaluation_def)

lemma exampleEnv_plan: "fst (getPracticePlan exampleEnv exampleEvaluation) = Inr examplePlan"
  by (simp add: getPracticePlan_def exampleEvaluation_weak Let_def)
    (simp add: exampleEnv_def exampleEvaluation_def trim_examplePlanJson)

lemma exampleRun_buffers:
  "buffersAtAdvance exampleTwoQuestions SpeakingOnly exampleEvents
     (initialTestScreen offline SpeakingOnly) = [''Yes, every day.'', ''They are fun.'']"
  by (simp add: exampleEvents_def exampleTwoQuestions_def exampleTest_def exampleQuestion_def
      initialTestScreen_def initialAnswers_def offline_def testScreen_step_def
      handleNextSpeakingQuestion_def elemAt_def toggleRecording_def startListening_def
      stopListening_def Let_def)

lemma offline_generate:
  "fst (generateComprehensiveTest offline url script type) = Inl (Rejected ''Failed to fetch'')"
  by (simp add: generateComprehensiveTest_def offline_def Let_def)

lemma noImageEnv_generate:
  "fst (generateComprehensiveTest noImageEnv url script type) = Inr exampleChartTest"
  by (simp add: generateComprehensiveTest_def noImageEnv_def exampleEnv_def Let_def
      trim_exampleChartTestJson)

lemma noImageEnv_chart:
  "fst (generateChartImage noImageEnv c) = Inl (Error ''Failed to generate chart image.'')"
  by (simp add: generateChartImage_def noImageEnv_def exampleEnv_def Let_def)

lemma exampleChartTest_chart:
  "cd_type (chartData (task1 (writing exampleChartTest))) \<noteq> Table"
  by (simp add: exampleChartTest_def)

lemma decimal_65: "decimal 65 = ''65''"
  by (simp add: decimal.simps [of 65] decimal.simps [of 6] digitChar_def)

lemma floor_rat_numeral:
  "\<lfloor>numeral a / numeral b :: rat\<rfloor> = numeral a div numeral b"
  using floor_divide_of_int_eq [of "numeral a" "numeral b", where ?'a = rat] by simp

lemma toFixed1_example: "toFixed1 exampleEnv (13 / 2) = ''6.5''"
  by (simp add: toFixed1_def Let_def floor_rat_numeral decimal_65)

lemma exampleDetailed:
  "detailedCriteria (Some exampleEvaluation) =
     [\<lparr>criterion = ''Speaking - Fluency and Coherence'', score = 6.5,
       feedback = ''Pause less between ideas.''\<rparr>]"
  by (simp add: detailedCriteria_def exampleEvaluation_def mainSkills_def)


section \<open>Properties of the welcome screen\<close>

text \<open>What the matchers accept, and the strings that the pattern of the welcome screen
  accepts.\<close>

lemma set_lit: "r \<in> set (lit p s) \<longleftrightarrow> s = p @ r"
  by (auto simp: lit_def prefix_def)

lemma set_opt: "r \<in> set (opt m s) \<longleftrightarrow> r \<in> set (m s) \<or> r = s"
  by (auto simp: opt_def)

lemma set_seq: "r \<in> set (seq m1 m2 s) \<longleftrightarrow> (\<exists>t. t \<in> set (m1 s) \<and> r \<in> set (m2 t))"
  by (auto simp: seq_def)

lemma set_alt: "r \<in> set (alt m1 m2 s) \<longleftrightarrow> r \<in> set (m1 s) \<or> r \<in> set (m2 s)"
  by (auto simp: alt_def)

lemma set_dotStar:
  "r \<in> set (dotStar s) \<longleftrightarrow> (\<exists>pre. s = pre @ r \<and> (\<forall>c \<in> set pre. dot c))"
proof (induction s)
  case Nil
  then show ?case by auto
next
  case (Cons x xs)
  show ?case
  proof
    assume "r \<in> set (dotStar (x # xs))"
    then consider "r = x # xs" | "dot x" "r \<in> set (dotStar xs)"
      by (auto split: if_splits)
    then show "\<exists>pre. x # xs = pre @ r \<and> (\<forall>c \<in> set pre. dot c)"
    proof cases
      case 1
      then have "x # xs = [] @ r \<and> (\<forall>c \<in> set []. dot c)" by simp
      then show ?thesis by blast
    next
      case 2
      then obtain pre where "xs = pre @ r" and "\<forall>c \<in> set pre. dot c"
        using Cons.IH by blast
      then have "x # xs = (x # pre) @ r \<and> (\<forall>c \<in> set (x # pre). dot c)"
        using 2(1) by simp
      then show ?thesis by blast
    qed
  next
    assume "\<exists>pre. x # xs = pre @ r \<and> (\<forall>c \<in> set pre. dot c)"
    then obtain pre where p: "x # xs = pre @ r" and d: "\<forall>c \<in> set pre. dot c"
      by blast
    show "r \<in> set (dotStar (x # xs))"
    proof (cases pre)
      case Nil
      have "x # xs \<in> set (dotStar (x # xs))" by simp
      moreover have "r = x # xs" using p Nil by simp
      ultimately show ?thesis by simp
    next
      case (Cons y ys)
      then have "x = y" "xs = ys @ r" "dot x" "\<forall>c \<in> set ys. dot c"
        using p d by auto
      then show ?thesis using Cons.IH by auto
    qed
  qed
qed

lemma set_dotPlus:
  "r \<in> set (dotPlus s) \<longleftrightarrow> (\<exists>pre. pre \<noteq> [] \<and> s = pre @ r \<and> (\<forall>c \<in> set pre. dot c))"
proof (cases s)
  case Nil
  then show ?thesis by (simp add: dotPlus_def)
next
  case (Cons x xs)
  show ?thesis
  proof
    assume "r \<in> set (dotPlus s)"
    then have "dot x" and "r \<in> set (dotStar xs)"
      using Cons by (auto simp: dotPlus_def split: if_splits)
    then obtain pre where "xs = pre @ r" and "\<forall>c \<in> set pre. dot c"
      using set_dotStar by blast
    then have "x # pre \<noteq> [] \<and> s = (x # pre) @ r \<and> (\<forall>c \<in> set (x # pre). dot c)"
      using Cons \<open>dot x\<close> by simp
    then show "\<exists>pre. pre \<noteq> [] \<and> s = pre @ r \<and> (\<forall>c \<in> set pre. dot c)"
      by blast
  next
    assume "\<exists>pre. pre \<noteq> [] \<and> s = pre @ r \<and> (\<forall>c \<in> set pre. dot c)"
    then obtain y ys where "s = (y # ys) @ r" and d: "\<forall>c \<in> set (y # ys). dot c"
      by (metis list.exhaust)
    then have "x = y" "xs = ys @ r"
      using Cons by auto
    then have "dot x" and "r \<in> set (dotStar xs)"
      using d set_dotStar by auto
    then show "r \<in> set (dotPlus s)"
      using Cons by (simp add: dotPlus_def)
  qed
qed

lemma youtubeRegex_iff:
  "regex_test youtubeRegex s \<longleftrightarrow>
     (\<exists>scheme www host rest.
        s = scheme @ www @ host @ ''/'' @ rest \<and>
        scheme \<in> {[], ''http://'', ''https://''} \<and>
        www \<in> {[], ''www.''} \<and>
        host \<in> {''youtube.com'', ''youtube'', ''youtu.be''} \<and>
        rest \<noteq> [] \<and> (\<forall>c \<in> set rest. \<not> isLineTerminator c))"
  (is "?L \<longleftrightarrow> ?R")
proof
  assume ?L
  then obtain t1 t2 t3 t4 where
    1: "t1 \<in> set (opt (seq (lit ''http'') (seq (opt (lit ''s'')) (lit ''://''))) s)" and
    2: "t2 \<in> set (opt (lit ''www.'') t1)" and
    3: "t3 \<in> set (alt (lit ''youtube.com'')
                    (seq (lit ''youtu'') (seq (opt (lit ''.'')) (lit ''be''))) t2)" and
    4: "t4 \<in> set (lit ''/'' t3)" and
    5: "[] \<in> set (dotPlus t4)"
    unfolding regex_test_def youtubeRegex_def set_seq by blast
  from 1 obtain scheme where sc: "s = scheme @ t1" "scheme \<in> {[], ''http://'', ''https://''}"
    unfolding set_opt set_seq set_lit by auto
  from 2 obtain www where w: "t1 = www @ t2" "www \<in> {[], ''www.''}"
    unfolding set_opt set_lit by auto
  from 3 obtain host where h: "t2 = host @ t3"
    "host \<in> {''youtube.com'', ''youtube'', ''youtu.be''}"
    unfolding set_alt set_opt set_seq set_lit by auto
  from 4 have sl: "t3 = ''/'' @ t4"
    unfolding set_lit .
  from 5 have r: "t4 \<noteq> []" "\<forall>c \<in> set t4. \<not> isLineTerminator c"
    unfolding set_dotPlus by (auto simp: dot_def)
  have "s = scheme @ www @ host @ ''/'' @ t4"
    using sc(1) w(1) h(1) sl by simp
  then show ?R
    using sc(2) w(2) h(2) r by blast
next
  assume ?R
  then obtain scheme www host rest where
    s: "s = scheme @ www @ host @ ''/'' @ rest" and
    sc: "scheme \<in> {[], ''http://'', ''https://''}" and
    w: "www \<in> {[], ''www.''}" and
    h: "host \<in> {''youtube.com'', ''youtube'', ''youtu.be''}" and
    r: "rest \<noteq> []" "\<forall>c \<in> set rest. \<not> isLineTerminator c"
    by blast
  have 5: "[] \<in> set (dotPlus rest)"
    unfolding set_dotPlus using r by (auto simp: dot_def)
  have 4: "rest \<in> set (lit ''/'' (''/'' @ rest))"
    unfolding set_lit by simp
  have 3: "''/'' @ rest \<in> set (alt (lit ''youtube.com'')
                    (seq (lit ''youtu'') (seq (opt (lit ''.'')) (lit ''be'')))
                    (host @ ''/'' @ rest))"
    using h unfolding set_alt set_opt set_seq set_lit by auto
  have 2: "host @ ''/'' @ rest \<in> set (opt (lit ''www.'') (www @ host @ ''/'' @ rest))"
    using w unfolding set_opt set_lit by auto
  have 1: "www @ host @ ''/'' @ rest \<in>
      set (opt (seq (lit ''http'') (seq (opt (lit ''s'')) (lit ''://''))) s)"
    using sc unfolding s set_opt set_seq set_lit by auto
  show ?L
    unfolding regex_test_def youtubeRegex_def set_seq using 1 2 3 4 5 by blast
qed

text \<open>
  Claim C1.  A click on a test-type button of the welcome screen takes the workflow from
  \<open>welcome\<close> into the generation phase exactly when the URL matches the pattern
  (\<open>youtubeRegex_iff\<close> says which strings do) and the
  trimmed transcript has 50 code units or more: then \<^verbatim>\<open>onStart\<close> is called with the
  inputs and every state committed while the run is suspended is \<open>generating\<close>.  When a
  rule is violated, \<^verbatim>\<open>onStart\<close> is not called, nothing is requested, the workflow state
  is unchanged (\<open>welcome\<close>), and the screen keeps its inputs and shows a validation
  message.
\<close>

theorem C1_handleStart:
  assumes "ui_screen ui = WelcomeScreen w" and "appState (ui_app ui) = Welcome"
  shows
   "(validInput w \<longrightarrow>
       handleStart type w = (w\<lparr>validationError := []\<rparr>, Some (w_videoUrl w, w_transcript w, type)) \<and>
       appState (startTest_begin (w_videoUrl w) type (ui_app ui)) = Generating \<and>
       awaited (snd (ui_start e type ui)) \<noteq> [] \<and>
       (\<forall>s \<in> set (awaited (snd (ui_start e type ui))). appState s = Generating))
    \<and> (\<not> validInput w \<longrightarrow>
       snd (handleStart type w) = None \<and>
       snd (ui_start e type ui) = [] \<and>
       ui_app (fst (ui_start e type ui)) = ui_app ui \<and>
       appState (ui_app (fst (ui_start e type ui))) = Welcome \<and>
       (\<exists>w'. ui_screen (fst (ui_start e type ui)) = WelcomeScreen w' \<and>
             validationError w' \<noteq> [] \<and>
             w_videoUrl w' = w_videoUrl w \<and> w_transcript w' = w_transcript w))"
proof (intro conjI impI)
  assume v: "validInput w"
  then show hs: "handleStart type w =
      (w\<lparr>validationError := []\<rparr>, Some (w_videoUrl w, w_transcript w, type))"
    by (simp add: validInput_def handleStart_def)
  show "appState (startTest_begin (w_videoUrl w) type (ui_app ui)) = Generating"
    by (simp add: startTest_begin_def)
  have tr: "snd (ui_start e type ui) =
      snd (startTest e (w_videoUrl w) (w_transcript w) type (ui_app ui))"
    using assms(1) hs by (simp add: ui_start_def split: prod.splits)
  show "awaited (snd (ui_start e type ui)) \<noteq> []"
    unfolding tr using startTest_awaited_Generating by blast
  show "\<forall>s \<in> set (awaited (snd (ui_start e type ui))). appState s = Generating"
    unfolding tr using startTest_awaited_Generating by blast
next
  assume nv: "\<not> validInput w"
  then show n: "snd (handleStart type w) = None"
    by (auto simp: validInput_def handleStart_def)
  obtain w' where hs: "handleStart type w = (w', None)"
    and w': "validationError w' \<noteq> []" "w_videoUrl w' = w_videoUrl w"
      "w_transcript w' = w_transcript w"
    using nv by (cases "regex_test youtubeRegex (w_videoUrl w)")
      (auto simp: validInput_def handleStart_def not_le)
  have u: "ui_start e type ui = (ui\<lparr>ui_screen := WelcomeScreen w'\<rparr>, [])"
    using assms(1) hs by (simp add: ui_start_def)
  show "snd (ui_start e type ui) = []" by (simp add: u)
  show "ui_app (fst (ui_start e type ui)) = ui_app ui" by (simp add: u)
  show "appState (ui_app (fst (ui_start e type ui))) = Welcome" by (simp add: u assms(2))
  show "\<exists>w'. ui_screen (fst (ui_start e type ui)) = WelcomeScreen w' \<and>
             validationError w' \<noteq> [] \<and>
             w_videoUrl w' = w_videoUrl w \<and> w_transcript w' = w_transcript w"
    using w' by (simp add: u)
qed

theorem C1_handleStart_witness:
  "validInput exampleWelcome
   \<and> snd (handleStart Full exampleWelcome) =
       Some (w_videoUrl exampleWelcome, w_transcript exampleWelcome, Full)
   \<and> appState (hd (awaited (snd (ui_start offline Full
         (initialUI\<lparr>ui_screen := WelcomeScreen exampleWelcome\<rparr>))))) = Generating
   \<and> \<not> validInput initialWelcomeScreen
   \<and> snd (handleStart Full initialWelcomeScreen) = None
   \<and> snd (ui_start offline Full initialUI) = []
   \<and> appState (ui_app (fst (ui_start offline Full initialUI))) = Welcome"
proof -
  let ?ui = "initialUI\<lparr>ui_screen := WelcomeScreen exampleWelcome\<rparr>"
  have s1: "ui_screen ?ui = WelcomeScreen exampleWelcome"
    by simp
  have a1: "appState (ui_app ?ui) = Welcome"
    by (simp add: initialUI_def initialApp_def)
  have s2: "ui_screen initialUI = WelcomeScreen initialWelcomeScreen"
    by (simp add: initialUI_def)
  have a2: "appState (ui_app initialUI) = Welcome"
    by (simp add: initialUI_def initialApp_def)
  note valid = C1_handleStart [OF s1 a1, of Full offline, THEN conjunct1, rule_format,
      OF validInput_exampleWelcome]
  note invalid = C1_handleStart [OF s2 a2, of Full offline, THEN conjunct2, rule_format,
      OF invalid_initialWelcomeScreen]
  have "snd (handleStart Full exampleWelcome) =
       Some (w_videoUrl exampleWelcome, w_transcript exampleWelcome, Full)"
    using valid by simp
  moreover have "appState (hd (awaited (snd (ui_start offline Full ?ui)))) = Generating"
    using valid hd_in_set by blast
  ultimately show ?thesis
    using validInput_exampleWelcome invalid_initialWelcomeScreen invalid by blast
qed



section \<open>Texts occurring in a document\<close>

lemma restAfter_Some: "restAfter p doc = Some rest \<Longrightarrow> \<exists>b. doc = b @ p @ rest"
proof (induction doc)
  case Nil
  then show ?case by (simp split: if_splits)
next
  case (Cons x xs)
  show ?case
  proof (cases "prefix p (x # xs)")
    case True
    then have "rest = drop (length p) (x # xs)"
      using Cons.prems by simp
    moreover have "x # xs = p @ drop (length p) (x # xs)"
      using True by (auto simp: prefix_def)
    ultimately have "x # xs = [] @ p @ rest" by simp
    then show ?thesis by blast
  next
    case False
    then have "restAfter p xs = Some rest"
      using Cons.prems by simp
    then obtain b where "xs = b @ p @ rest"
      using Cons.IH by blast
    then have "x # xs = (x # b) @ p @ rest" by simp
    then show ?thesis by blast
  qed
qed

lemma restAfter_found: "\<exists>c. restAfter p (b @ p @ a) = Some (c @ a)"
proof (induction b)
  case Nil
  show ?case
  proof (cases "p @ a")
    case Nil
    then show ?thesis by simp
  next
    case (Cons x xs)
    then have "restAfter p (p @ a) = Some ([] @ a)"
      by (metis append_Nil append_eq_conv_conj prefixI restAfter.simps(2))
    then show ?thesis by (intro exI [of _ "[]"]) simp
  qed
next
  case (Cons y b)
  show ?case
  proof (cases "prefix p (y # b @ p @ a)")
    case True
    have "length p - length (y # b @ p) = 0"
      by simp
    then have "drop (length p) ((y # b @ p) @ a) = drop (length p) (y # b @ p) @ a"
      by (simp only: drop_append drop_0)
    then have "restAfter p ((y # b) @ p @ a) = Some (drop (length p) (y # b @ p) @ a)"
      using True by simp
    then show ?thesis by blast
  next
    case False
    then have "restAfter p ((y # b) @ p @ a) = restAfter p (b @ p @ a)"
      by simp
    then show ?thesis using Cons.IH by simp
  qed
qed

lemma occurInOrder_prepend: "occurInOrder ps doc \<Longrightarrow> occurInOrder ps (x @ doc)"
proof (induction ps arbitrary: doc x)
  case Nil
  then show ?case by simp
next
  case (Cons p ps)
  then obtain rest where r: "restAfter p doc = Some rest" and o: "occurInOrder ps rest"
    by (auto split: option.splits)
  obtain b where "doc = b @ p @ rest"
    using restAfter_Some [OF r] by blast
  then have "x @ doc = (x @ b) @ p @ rest" by simp
  then obtain c where "restAfter p (x @ doc) = Some (c @ rest)"
    using restAfter_found [of p "x @ b" rest] by auto
  then show ?case
    using Cons.IH [OF o, of c] by simp
qed

lemma occurInOrder_Cons_iff:
  "occurInOrder (p # ps) doc \<longleftrightarrow> (\<exists>b a. doc = b @ p @ a \<and> occurInOrder ps a)"
proof
  assume "occurInOrder (p # ps) doc"
  then obtain rest where r: "restAfter p doc = Some rest" and o: "occurInOrder ps rest"
    by (auto split: option.splits)
  then show "\<exists>b a. doc = b @ p @ a \<and> occurInOrder ps a"
    using restAfter_Some [OF r] by blast
next
  assume "\<exists>b a. doc = b @ p @ a \<and> occurInOrder ps a"
  then obtain b a where d: "doc = b @ p @ a" and o: "occurInOrder ps a"
    by blast
  obtain c where "restAfter p doc = Some (c @ a)"
    unfolding d using restAfter_found by blast
  then show "occurInOrder (p # ps) doc"
    using occurInOrder_prepend [OF o, of c] by simp
qed

lemma occurInOrder_extend: "occurInOrder ps doc \<Longrightarrow> occurInOrder ps (doc @ y)"
proof (induction ps arbitrary: doc)
  case Nil
  then show ?case by simp
next
  case (Cons p ps)
  then obtain b a where d: "doc = b @ p @ a" and r: "occurInOrder ps a"
    unfolding occurInOrder_Cons_iff by blast
  have "doc @ y = b @ p @ (a @ y)" by (simp add: d)
  moreover have "occurInOrder ps (a @ y)" using Cons.IH [OF r] .
  ultimately show ?case unfolding occurInOrder_Cons_iff by blast
qed

lemma occurInOrder_append:
  "occurInOrder ps d1 \<Longrightarrow> occurInOrder qs d2 \<Longrightarrow> occurInOrder (ps @ qs) (d1 @ d2)"
proof (induction ps arbitrary: d1)
  case Nil
  then show ?case by (simp add: occurInOrder_prepend)
next
  case (Cons p ps)
  then obtain b a where d: "d1 = b @ p @ a" and r: "occurInOrder ps a"
    unfolding occurInOrder_Cons_iff by blast
  have "d1 @ d2 = b @ p @ (a @ d2)" by (simp add: d)
  moreover have "occurInOrder (ps @ qs) (a @ d2)" using Cons.IH [OF r Cons.prems(2)] .
  ultimately show ?case unfolding append_Cons occurInOrder_Cons_iff by blast
qed

lemma occurInOrder_single: "occurInOrder [p] (b @ p @ a)"
  unfolding occurInOrder_Cons_iff by auto

lemma occurInOrder_concat_map:
  assumes "\<And>x. occurInOrder [g x] (f x)"
  shows "occurInOrder (map g xs) (concat (map f xs))"
proof (induction xs)
  case Nil
  then show ?case by simp
next
  case (Cons x xs)
  have "occurInOrder ([g x] @ map g xs) (f x @ concat (map f xs))"
    using assms Cons.IH by (rule occurInOrder_append)
  then show ?case by (simp del: occurInOrder.simps)
qed

lemma occurInOrder_join: "occurInOrder xs (join sep xs)"
proof (induction sep xs rule: join.induct)
  case (1 sep)
  then show ?case by simp
next
  case (2 sep x)
  have "occurInOrder [x] ([] @ x @ [])" by (rule occurInOrder_single)
  then show ?case by simp
next
  case (3 sep x y ys)
  have "occurInOrder [x] ([] @ x @ [])" by (rule occurInOrder_single)
  then have "occurInOrder [x] x" by simp
  moreover have "occurInOrder (y # ys) (sep @ join sep (y # ys))"
    using 3 by (rule occurInOrder_prepend)
  ultimately have "occurInOrder ([x] @ y # ys) (x @ sep @ join sep (y # ys))"
    by (rule occurInOrder_append)
  then show ?case by (simp del: occurInOrder.simps)
qed

lemma practicePlanPrompt_lines:
  "occurInOrder (map (weaknessLine e) weaknesses) (practicePlanPrompt e overall weaknesses)"
  unfolding practicePlanPrompt_def
  by (intro occurInOrder_prepend occurInOrder_extend occurInOrder_join)


section \<open>Properties of the practice plan\<close>

text \<open>
  Claim C4, as amended.  When every criterion of the evaluation has a score of 7.5 or
  more, \<^verbatim>\<open>getPracticePlan\<close> returns the one fixed item and sends no request.  Otherwise
  it sends exactly one request, whose prompt is built from exactly the criteria with a
  score below 7.5, with one line for each of them, in order (and asks for three
  exercises), and it returns the list that the text of the response parses to, whatever
  its length; it throws when the request is rejected or the text does not parse.
\<close>

theorem C4_getPracticePlan:
  "((\<forall>s \<in> set (detailedScores ev). 7.5 \<le> score s) \<longrightarrow>
       getPracticePlan e ev = (Inr [maintainExcellence], []))
   \<and> (\<not> (\<forall>s \<in> set (detailedScores ev). 7.5 \<le> score s) \<longrightarrow>
         snd (getPracticePlan e ev) =
           [Request_generateContent (PracticePlanRequest
              (practicePlanPrompt e (overallBandScore ev)
                 (filter (\<lambda>s. score s < 7.5) (detailedScores ev))))]
       \<and> occurInOrder
           (map (weaknessLine e) (filter (\<lambda>s. score s < 7.5) (detailedScores ev)))
           (practicePlanPrompt e (overallBandScore ev)
              (filter (\<lambda>s. score s < 7.5) (detailedScores ev)))
       \<and> (\<forall>items. fst (getPracticePlan e ev) = Inr items \<longleftrightarrow>
             (\<exists>text. generateContent e (PracticePlanRequest
                        (practicePlanPrompt e (overallBandScore ev)
                           (filter (\<lambda>s. score s < 7.5) (detailedScores ev)))) = Inr (Some text) \<and>
                     parsePracticePlan e (trim text) = Some items)))"
proof (intro conjI impI)
  assume "\<forall>s \<in> set (detailedScores ev). 7.5 \<le> score s"
  then have "filter (\<lambda>s. score s < 7.5) (detailedScores ev) = []"
    by (auto simp: filter_empty_conv not_less)
  then show "getPracticePlan e ev = (Inr [maintainExcellence], [])"
    by (simp add: getPracticePlan_def)
next
  assume "\<not> (\<forall>s \<in> set (detailedScores ev). 7.5 \<le> score s)"
  then have w: "filter (\<lambda>s. score s < 7.5) (detailedScores ev) \<noteq> []"
    by (auto simp: filter_empty_conv not_le)
  show "snd (getPracticePlan e ev) =
           [Request_generateContent (PracticePlanRequest
              (practicePlanPrompt e (overallBandScore ev)
                 (filter (\<lambda>s. score s < 7.5) (detailedScores ev))))]"
    using w by (simp add: getPracticePlan_def Let_def)
  show "occurInOrder
           (map (weaknessLine e) (filter (\<lambda>s. score s < 7.5) (detailedScores ev)))
           (practicePlanPrompt e (overallBandScore ev)
              (filter (\<lambda>s. score s < 7.5) (detailedScores ev)))"
    by (rule practicePlanPrompt_lines)
  show "\<forall>items. fst (getPracticePlan e ev) = Inr items \<longleftrightarrow>
             (\<exists>text. generateContent e (PracticePlanRequest
                        (practicePlanPrompt e (overallBandScore ev)
                           (filter (\<lambda>s. score s < 7.5) (detailedScores ev)))) = Inr (Some text) \<and>
                     parsePracticePlan e (trim text) = Some items)"
    using w by (auto simp: getPracticePlan_def Let_def split: sum.splits option.splits)
qed

theorem C4_getPracticePlan_witness:
  "getPracticePlan offline (exampleEvaluation\<lparr>detailedScores :=
       [\<lparr>criterion = ''Speaking'', score = 8, feedback = ''Fluent and precise.''\<rparr>]\<rparr>) =
     (Inr [maintainExcellence], [])
   \<and> snd (getPracticePlan exampleEnv exampleEvaluation) =
       [Request_generateContent (PracticePlanRequest
          (practicePlanPrompt exampleEnv 6.5 (detailedScores exampleEvaluation)))]
   \<and> fst (getPracticePlan exampleEnv exampleEvaluation) = Inr examplePlan"
proof -
  let ?good = "exampleEvaluation\<lparr>detailedScores :=
       [\<lparr>criterion = ''Speaking'', score = 8, feedback = ''Fluent and precise.''\<rparr>]\<rparr>"
  have g: "\<forall>s \<in> set (detailedScores ?good). 7.5 \<le> score s"
    by simp
  have w: "\<not> (\<forall>s \<in> set (detailedScores exampleEvaluation). 7.5 \<le> score s)"
    by (simp add: exampleEvaluation_def)
  have o: "overallBandScore exampleEvaluation = 6.5"
    by (simp add: exampleEvaluation_def)
  note a = C4_getPracticePlan [of ?good offline, THEN conjunct1, THEN mp, OF g]
  note b = C4_getPracticePlan [of exampleEvaluation exampleEnv, THEN conjunct2, THEN mp,
      OF w, THEN conjunct1]
  show ?thesis
    using a b [unfolded exampleEvaluation_weak o] exampleEnv_plan by blast
qed

text \<open>
  The claim as it was stated asks for exactly three items.  With the example service, whose
  response parses to a plan of one exercise, \<^verbatim>\<open>getPracticePlan\<close> returns that plan for an
  evaluation with a criterion below 7.5.
\<close>

theorem C4_three_items_counterexample:
  "score (hd (detailedScores exampleEvaluation)) < 7.5
   \<and> fst (getPracticePlan exampleEnv exampleEvaluation) = Inr examplePlan
   \<and> length examplePlan = 1"
  using exampleEnv_plan by (simp add: exampleEvaluation_def examplePlan_def)



section \<open>Properties of the workflow\<close>

text \<open>
  Claim C2.  For a listening-only or reading-only test, the button under the section
  calls \<^verbatim>\<open>onTestComplete\<close> with the answers, and \<^verbatim>\<open>handleTestComplete\<close> goes to \<open>results\<close>
  with the evaluation and the practice plan set to null, without suspending: no request
  is sent, and neither \<^verbatim>\<open>evaluateComprehensiveTest\<close> nor \<^verbatim>\<open>getPracticePlan\<close> is called.
  The evaluation screen is what is shown next.
\<close>

theorem C2_objective:
  assumes "comprehensiveTest a = Some tc" and "testType a = Some type"
    and "type = ListeningOnly \<or> type = ReadingOnly"
  shows "nextSection type s = (s, Some (answers s))
    \<and> appState (fst (handleTestComplete e ans a)) = Results
    \<and> evaluation (fst (handleTestComplete e ans a)) = None
    \<and> practicePlan (fst (handleTestComplete e ans a)) = None
    \<and> userAnswers (fst (handleTestComplete e ans a)) = Some ans
    \<and> snd (handleTestComplete e ans a) = []
    \<and> ui_screen (rerender e old (snd (handleTestComplete e ans a))
          (fst (handleTestComplete e ans a))) = EvaluationScreen"
  using assms
  by (auto simp: handleTestComplete_def nextSection_def rerender_def renderContent_def Let_def)

theorem C2_objective_witness:
  "comprehensiveTest (exampleApp\<lparr>testType := Some ListeningOnly\<rparr>) = Some exampleTest
   \<and> nextSection ListeningOnly (initialTestScreen offline ListeningOnly) =
       (initialTestScreen offline ListeningOnly, Some initialAnswers)
   \<and> appState (fst (handleTestComplete offline initialAnswers
         (exampleApp\<lparr>testType := Some ListeningOnly\<rparr>))) = Results
   \<and> evaluation (fst (handleTestComplete offline initialAnswers
         (exampleApp\<lparr>testType := Some ListeningOnly\<rparr>))) = None
   \<and> practicePlan (fst (handleTestComplete offline initialAnswers
         (exampleApp\<lparr>testType := Some ListeningOnly\<rparr>))) = None
   \<and> snd (handleTestComplete offline initialAnswers
         (exampleApp\<lparr>testType := Some ListeningOnly\<rparr>)) = []"
proof -
  have h1: "comprehensiveTest (exampleApp\<lparr>testType := Some ListeningOnly\<rparr>) = Some exampleTest"
    by (simp add: exampleApp_def)
  have h2: "testType (exampleApp\<lparr>testType := Some ListeningOnly\<rparr>) = Some ListeningOnly"
    by simp
  have h3: "ListeningOnly = ListeningOnly \<or> ListeningOnly = ReadingOnly"
    by simp
  show ?thesis
    using h1 C2_objective [OF h1 h2 h3, of "initialTestScreen offline ListeningOnly" offline
        initialAnswers]
    by (simp add: initialTestScreen_def)
qed


text \<open>
  Claim C3.  For a writing-only, speaking-only or full test, \<^verbatim>\<open>handleTestComplete\<close>
  reaches \<open>results\<close> exactly when both calls return; the calls made on the way are then
  one call of \<^verbatim>\<open>evaluateComprehensiveTest\<close> followed by one call of \<^verbatim>\<open>getPracticePlan\<close> on
  its result, and nothing else.  In every run the first function is called once and the
  second at most once, after it; and every state committed before the end of the run is
  \<open>evaluating\<close>, so \<open>results\<close> is reached only after the two calls.
\<close>

theorem C3_subjective:
  assumes "comprehensiveTest a = Some tc" and "testType a = Some type"
    and "type = WritingOnly \<or> type = SpeakingOnly \<or> type = Full"
  shows "(appState (fst (handleTestComplete e ans a)) = Results \<longleftrightarrow>
           (\<exists>ev plan. fst (evaluateComprehensiveTest e tc ans) = Inr ev \<and>
                       fst (getPracticePlan e ev) = Inr plan))
    \<and> (appState (fst (handleTestComplete e ans a)) = Results \<longrightarrow>
          (\<exists>ev. fst (evaluateComprehensiveTest e tc ans) = Inr ev \<and>
                filter isInvoke (snd (handleTestComplete e ans a)) =
                  [Invoke_evaluateComprehensiveTest tc ans, Invoke_getPracticePlan ev]))
    \<and> (filter isInvoke (snd (handleTestComplete e ans a)) =
          [Invoke_evaluateComprehensiveTest tc ans]
        \<or> (\<exists>ev. filter isInvoke (snd (handleTestComplete e ans a)) =
                  [Invoke_evaluateComprehensiveTest tc ans, Invoke_getPracticePlan ev]))
    \<and> (\<forall>s \<in> set (awaited (snd (handleTestComplete e ans a))). appState s = Evaluating)"
  unfolding handleTestComplete_subjective [OF assms]
  by (auto simp: Let_def awaited_append evaluateComprehensiveTest_events getPracticePlan_events
      evaluationFailed_def split: sum.splits)

theorem C3_subjective_witness:
  "testType exampleApp = Some SpeakingOnly
   \<and> appState (fst (handleTestComplete exampleEnv exampleSubmitted exampleApp)) = Results
   \<and> filter isInvoke (snd (handleTestComplete exampleEnv exampleSubmitted exampleApp)) =
       [Invoke_evaluateComprehensiveTest exampleTest exampleSubmitted,
        Invoke_getPracticePlan exampleEvaluation]"
proof -
  have ty: "SpeakingOnly = WritingOnly \<or> SpeakingOnly = SpeakingOnly \<or> SpeakingOnly = Full"
    by simp
  note c = C3_subjective [OF exampleApp_fields(1,2) ty, of exampleEnv exampleSubmitted]
  have res: "appState (fst (handleTestComplete exampleEnv exampleSubmitted exampleApp)) = Results"
    using c exampleEnv_evaluate exampleEnv_plan by blast
  then show ?thesis
    using c exampleEnv_evaluate [of exampleTest exampleSubmitted] exampleApp_fields(2) by auto
qed


text \<open>
  Claim C8.  When the generation of the test content fails, or it succeeds with a chart
  that is no table and the generation of the chart image fails, \<^verbatim>\<open>startTest\<close> ends in
  \<open>welcome\<close> with the generation error message, after having been in \<open>generating\<close>; the
  test content is not stored, so there is no test without the image, and the welcome
  screen is what is shown.  A response of the image service without an image makes
  \<^verbatim>\<open>generateChartImage\<close> throw.
\<close>

theorem C8_generation_failure:
  assumes "fst (generateComprehensiveTest e url script type) = Inl x
     \<or> (\<exists>t y. fst (generateComprehensiveTest e url script type) = Inr t \<and>
              cd_type (chartData (task1 (writing t))) \<noteq> Table \<and>
              fst (generateChartImage e (chartData (task1 (writing t)))) = Inl y)"
  shows "appState (fst (startTest e url script type a)) = Welcome
    \<and> error (fst (startTest e url script type a)) =
        Some ''Failed to generate the test. Please check the video URL or try again.''
    \<and> comprehensiveTest (fst (startTest e url script type a)) = comprehensiveTest a
    \<and> awaited (snd (startTest e url script type a)) \<noteq> []
    \<and> (\<forall>s \<in> set (awaited (snd (startTest e url script type a))). appState s = Generating)
    \<and> ui_screen (rerender e old (snd (startTest e url script type a))
          (fst (startTest e url script type a))) = WelcomeScreen initialWelcomeScreen
    \<and> (generateImages e (chartPrompt c) = Inr None \<or> generateImages e (chartPrompt c) = Inr (Some [])
         \<longrightarrow> fst (generateChartImage e c) = Inl (Error ''Failed to generate chart image.''))"
proof -
  let ?r = "startTest e url script type a"
  note aw = startTest_awaited_Generating [of e url script type a]
  have st: "appState (fst ?r) = Welcome"
    unfolding startTest_failure [OF assms] by (simp add: generationFailed_def)
  have "rerender e old (snd ?r) (fst ?r) =
      \<lparr>ui_app = fst ?r, ui_screen = WelcomeScreen initialWelcomeScreen\<rparr>"
    using aw st by (intro rerender_Welcome) auto
  then have scr: "ui_screen (rerender e old (snd ?r) (fst ?r)) =
      WelcomeScreen initialWelcomeScreen"
    by simp
  have rest: "error (fst ?r) =
        Some ''Failed to generate the test. Please check the video URL or try again.''
      \<and> comprehensiveTest (fst ?r) = comprehensiveTest a"
    unfolding startTest_failure [OF assms]
    by (simp add: generationFailed_def startTest_begin_def)
  have img: "generateImages e (chartPrompt c) = Inr None
        \<or> generateImages e (chartPrompt c) = Inr (Some [])
      \<longrightarrow> fst (generateChartImage e c) = Inl (Error ''Failed to generate chart image.'')"
    by (auto simp: generateChartImage_def Let_def)
  show ?thesis
    using st rest aw scr img by blast
qed

theorem C8_generation_failure_witness:
  "fst (generateComprehensiveTest offline (w_videoUrl exampleWelcome)
          (w_transcript exampleWelcome) Full) = Inl (Rejected ''Failed to fetch'')
   \<and> appState (fst (startTest offline (w_videoUrl exampleWelcome)
          (w_transcript exampleWelcome) Full initialApp)) = Welcome
   \<and> generateImages noImageEnv (chartPrompt (chartData (task1 (writing exampleChartTest)))) =
       Inr (Some [])
   \<and> appState (fst (startTest noImageEnv (w_videoUrl exampleWelcome)
          (w_transcript exampleWelcome) WritingOnly initialApp)) = Welcome
   \<and> error (fst (startTest noImageEnv (w_videoUrl exampleWelcome)
          (w_transcript exampleWelcome) WritingOnly initialApp)) =
       Some ''Failed to generate the test. Please check the video URL or try again.''
   \<and> comprehensiveTest (fst (startTest noImageEnv (w_videoUrl exampleWelcome)
          (w_transcript exampleWelcome) WritingOnly initialApp)) = None"
proof -
  let ?url = "w_videoUrl exampleWelcome" and ?script = "w_transcript exampleWelcome"
  have h1: "fst (generateComprehensiveTest offline ?url ?script Full) =
        Inl (Rejected ''Failed to fetch'')
     \<or> (\<exists>t y. fst (generateComprehensiveTest offline ?url ?script Full) = Inr t \<and>
              cd_type (chartData (task1 (writing t))) \<noteq> Table \<and>
              fst (generateChartImage offline (chartData (task1 (writing t)))) = Inl y)"
    using offline_generate by blast
  have h2: "fst (generateComprehensiveTest noImageEnv ?url ?script WritingOnly) =
        Inl (Rejected ''Failed to fetch'')
     \<or> (\<exists>t y. fst (generateComprehensiveTest noImageEnv ?url ?script WritingOnly) = Inr t \<and>
              cd_type (chartData (task1 (writing t))) \<noteq> Table \<and>
              fst (generateChartImage noImageEnv (chartData (task1 (writing t)))) = Inl y)"
    using noImageEnv_generate noImageEnv_chart exampleChartTest_chart by blast
  have img: "generateImages noImageEnv
      (chartPrompt (chartData (task1 (writing exampleChartTest)))) = Inr (Some [])"
    by (simp add: noImageEnv_def)
  have none: "comprehensiveTest initialApp = None"
    by (simp add: initialApp_def)
  show ?thesis
    using C8_generation_failure [OF h1, of initialApp] C8_generation_failure [OF h2, of initialApp]
      offline_generate img none
    by simp
qed



section \<open>Properties of the speaking section\<close>

lemma step_other:
  assumes "ev \<noteq> NextSpeakingQuestionClick" and "type = Full \<or> ev \<noteq> NextSectionClick"
  shows "snd (testScreen_step tc type ev s) = None
    \<and> currentSpeakingQuestionIndex (fst (testScreen_step tc type ev s)) =
        currentSpeakingQuestionIndex s
    \<and> ans_speaking (answers (fst (testScreen_step tc type ev s))) = ans_speaking (answers s)"
  using assms
  by (cases ev)
    (auto simp: testScreen_step_def handleAnswerChange_def handleWritingChange_def
      nextSection_def toggleRecording_def startListening_def stopListening_def Let_def
      split: ObjectiveSection.splits WritingTask.splits option.splits)

lemma step_next_last:
  assumes "Suc (currentSpeakingQuestionIndex s) = length (speaking tc)"
  shows "snd (testScreen_step tc type NextSpeakingQuestionClick s) =
      Some ((answers s)\<lparr>ans_speaking := ans_speaking (answers s) @
         [\<lparr>sa_question = question (speaking tc ! currentSpeakingQuestionIndex s),
           sa_answer = transcript s\<rparr>]\<rparr>)"
  using assms
  by (auto simp: testScreen_step_def handleNextSpeakingQuestion_def elemAt_def Let_def)

lemma step_next_more:
  assumes "Suc (currentSpeakingQuestionIndex s) < length (speaking tc)"
  shows "snd (testScreen_step tc type NextSpeakingQuestionClick s) = None
    \<and> currentSpeakingQuestionIndex (fst (testScreen_step tc type NextSpeakingQuestionClick s)) =
        Suc (currentSpeakingQuestionIndex s)
    \<and> ans_speaking (answers (fst (testScreen_step tc type NextSpeakingQuestionClick s))) =
        ans_speaking (answers s) @
         [\<lparr>sa_question = question (speaking tc ! currentSpeakingQuestionIndex s),
           sa_answer = transcript s\<rparr>]"
  using assms
  by (auto simp: testScreen_step_def handleNextSpeakingQuestion_def elemAt_def Let_def
      stopListening_def)

lemma run_Cons:
  "snd (testScreen_run tc type (ev # evs) s) =
     (case snd (testScreen_step tc type ev s) of None \<Rightarrow> [] | Some a \<Rightarrow> [a])
     @ snd (testScreen_run tc type evs (fst (testScreen_step tc type ev s)))"
  by (simp add: Let_def split: prod.splits)

lemma run_no_advance:
  assumes "count_list evs NextSpeakingQuestionClick = 0"
    and "type = Full \<or> NextSectionClick \<notin> set evs"
  shows "snd (testScreen_run tc type evs s) = [] \<and> buffersAtAdvance tc type evs s = []"
  using assms
proof (induction evs arbitrary: s)
  case Nil
  then show ?case by simp
next
  case (Cons ev evs)
  have ne: "ev \<noteq> NextSpeakingQuestionClick"
    using Cons.prems(1) by (auto split: if_splits)
  have ns: "type = Full \<or> ev \<noteq> NextSectionClick"
    using Cons.prems(2) by auto
  have rest: "count_list evs NextSpeakingQuestionClick = 0"
    "type = Full \<or> NextSectionClick \<notin> set evs"
    using Cons.prems ne by (auto split: if_splits)
  show ?case
    using step_other [OF ne ns, of tc s] Cons.IH [OF rest] ne
    by (simp add: run_Cons del: testScreen_run.simps)
qed

lemma run_speaking:
  assumes "currentSpeakingQuestionIndex s < length (speaking tc)"
    and "count_list evs NextSpeakingQuestionClick =
           length (speaking tc) - currentSpeakingQuestionIndex s"
    and "type = Full \<or> NextSectionClick \<notin> set evs"
  shows "\<exists>final. snd (testScreen_run tc type evs s) = [final] \<and>
     ans_speaking final =
       ans_speaking (answers s) @
       map2 (\<lambda>q b. \<lparr>sa_question = question q, sa_answer = b\<rparr>)
         (drop (currentSpeakingQuestionIndex s) (speaking tc))
         (buffersAtAdvance tc type evs s)"
  using assms
proof (induction evs arbitrary: s)
  case Nil
  then show ?case by simp
next
  case (Cons ev evs)
  let ?i = "currentSpeakingQuestionIndex s"
  let ?s1 = "fst (testScreen_step tc type ev s)"
  have ns: "type = Full \<or> NextSectionClick \<notin> set evs"
    using Cons.prems(3) by auto
  show ?case
  proof (cases "ev = NextSpeakingQuestionClick")
    case adv: True
    have cnt: "Suc (count_list evs NextSpeakingQuestionClick) = length (speaking tc) - ?i"
      using Cons.prems(2) adv by simp
    have dr: "drop ?i (speaking tc) = speaking tc ! ?i # drop (Suc ?i) (speaking tc)"
      using Cons.prems(1) by (simp add: Cons_nth_drop_Suc)
    show ?thesis
    proof (cases "Suc ?i = length (speaking tc)")
      case last: True
      have zero: "count_list evs NextSpeakingQuestionClick = 0"
        using cnt last by simp
      show ?thesis
        using step_next_last [OF last, of type] run_no_advance [OF zero ns, of tc ?s1] adv dr last
        by (simp add: run_Cons del: testScreen_run.simps)
    next
      case False
      then have more: "Suc ?i < length (speaking tc)"
        using Cons.prems(1) by simp
      note st = step_next_more [OF more, of type]
      have p1: "currentSpeakingQuestionIndex ?s1 < length (speaking tc)"
        using st more adv by simp
      have p2: "count_list evs NextSpeakingQuestionClick =
           length (speaking tc) - currentSpeakingQuestionIndex ?s1"
        using st cnt adv by simp
      from Cons.IH [OF p1 p2 ns] show ?thesis
        using st adv dr by (simp add: run_Cons del: testScreen_run.simps)
    qed
  next
    case other: False
    have ns1: "type = Full \<or> ev \<noteq> NextSectionClick"
      using Cons.prems(3) by auto
    note st = step_other [OF other ns1, of tc s]
    have p1: "currentSpeakingQuestionIndex ?s1 < length (speaking tc)"
      using st Cons.prems(1) by simp
    have p2: "count_list evs NextSpeakingQuestionClick =
           length (speaking tc) - currentSpeakingQuestionIndex ?s1"
      using st Cons.prems(2) other by simp
    from Cons.IH [OF p1 p2 ns] show ?thesis
      using st other by (simp add: run_Cons del: testScreen_run.simps)
  qed
qed

lemma length_buffersAtAdvance:
  "length (buffersAtAdvance tc type evs s) = count_list evs NextSpeakingQuestionClick"
  by (induction evs arbitrary: s) auto

text \<open>
  Claim C6.  Take a test with \<open>N \<ge> 1\<close> speaking questions and a test screen on which no
  speaking question has been answered yet.  After any sequence of events with exactly \<open>N\<close>
  clicks on the button under the speaking question (and, unless the test is a full one,
  no click on the button under a section, which the speaking section does not show),
  \<^verbatim>\<open>onTestComplete\<close> has been called exactly once, and the speaking answers passed have
  exactly \<open>N\<close> entries: the \<open>i\<close>-th one has the text of the \<open>i\<close>-th question and the content
  of the transcript buffer at the \<open>i\<close>-th click.
\<close>

theorem C6_speaking:
  assumes "speaking tc \<noteq> []"
    and "currentSpeakingQuestionIndex s = 0" and "ans_speaking (answers s) = []"
    and "count_list evs NextSpeakingQuestionClick = length (speaking tc)"
    and "type = Full \<or> NextSectionClick \<notin> set evs"
  shows "\<exists>final. snd (testScreen_run tc type evs s) = [final]
     \<and> length (ans_speaking final) = length (speaking tc)
     \<and> ans_speaking final =
         map2 (\<lambda>q b. \<lparr>sa_question = question q, sa_answer = b\<rparr>)
           (speaking tc) (buffersAtAdvance tc type evs s)
     \<and> (\<forall>i < length (speaking tc).
           sa_question (ans_speaking final ! i) = question (speaking tc ! i) \<and>
           sa_answer (ans_speaking final ! i) = buffersAtAdvance tc type evs s ! i)"
proof -
  have p1: "currentSpeakingQuestionIndex s < length (speaking tc)"
    using assms(1,2) by simp
  have p2: "count_list evs NextSpeakingQuestionClick =
      length (speaking tc) - currentSpeakingQuestionIndex s"
    using assms(2,4) by simp
  obtain final where f: "snd (testScreen_run tc type evs s) = [final]"
    and a: "ans_speaking final =
         map2 (\<lambda>q b. \<lparr>sa_question = question q, sa_answer = b\<rparr>)
           (speaking tc) (buffersAtAdvance tc type evs s)"
    using run_speaking [OF p1 p2 assms(5)] assms(2,3) by auto
  have len: "length (buffersAtAdvance tc type evs s) = length (speaking tc)"
    using assms(4) by (simp add: length_buffersAtAdvance)
  show ?thesis
    using f a len by (intro exI [of _ final]) simp
qed

theorem C6_speaking_witness:
  "speaking exampleTwoQuestions \<noteq> []
   \<and> count_list exampleEvents NextSpeakingQuestionClick = length (speaking exampleTwoQuestions)
   \<and> map ans_speaking (snd (testScreen_run exampleTwoQuestions SpeakingOnly exampleEvents
         (initialTestScreen offline SpeakingOnly))) =
       [ [\<lparr>sa_question = ''Do you watch videos online?'', sa_answer = ''Yes, every day.''\<rparr>,
         \<lparr>sa_question = ''What do you like about them?'', sa_answer = ''They are fun.''\<rparr>] ]"
proof -
  have h1: "speaking exampleTwoQuestions \<noteq> []"
    by (simp add: exampleTwoQuestions_def)
  have h2: "currentSpeakingQuestionIndex (initialTestScreen offline SpeakingOnly) = 0"
    by (simp add: initialTestScreen_def)
  have h3: "ans_speaking (answers (initialTestScreen offline SpeakingOnly)) = []"
    by (simp add: initialTestScreen_def initialAnswers_def)
  have h4: "count_list exampleEvents NextSpeakingQuestionClick =
      length (speaking exampleTwoQuestions)"
    by (simp add: exampleEvents_def exampleTwoQuestions_def)
  have h5: "SpeakingOnly = Full \<or> NextSectionClick \<notin> set exampleEvents"
    by (simp add: exampleEvents_def)
  have qs: "speaking exampleTwoQuestions =
      [exampleQuestion, exampleQuestion\<lparr>question := ''What do you like about them?''\<rparr>]"
    by (simp add: exampleTwoQuestions_def)
  obtain final where
    f: "snd (testScreen_run exampleTwoQuestions SpeakingOnly exampleEvents
          (initialTestScreen offline SpeakingOnly)) = [final]"
    and a: "ans_speaking final =
         map2 (\<lambda>q b. \<lparr>sa_question = question q, sa_answer = b\<rparr>)
           (speaking exampleTwoQuestions)
           (buffersAtAdvance exampleTwoQuestions SpeakingOnly exampleEvents
              (initialTestScreen offline SpeakingOnly))"
    using C6_speaking [OF h1 h2 h3 h4 h5] by blast
  have "ans_speaking final =
      [\<lparr>sa_question = ''Do you watch videos online?'', sa_answer = ''Yes, every day.''\<rparr>,
       \<lparr>sa_question = ''What do you like about them?'', sa_answer = ''They are fun.''\<rparr>]"
    unfolding a exampleRun_buffers qs by (simp add: exampleQuestion_def)
  then show ?thesis
    using h1 h4 f by simp
qed



section \<open>Failure of the evaluation\<close>

text \<open>
  What a failure of the evaluation or of the practice plan leaves behind, for any event
  that completes a subjective test: the workflow is in \<open>test\<close>, the message and the
  submitted answers are in the state of \<^verbatim>\<open>App\<close>, and the test screen, which the loader had
  replaced, has been mounted again with its initial state.
\<close>

lemma evaluation_failure_remount:
  assumes "ui_screen ui = TestScreen s"
    and "comprehensiveTest (ui_app ui) = Some tc" and "testType (ui_app ui) = Some type"
    and "videoUrl (ui_app ui) \<noteq> []"
    and "type = WritingOnly \<or> type = SpeakingOnly \<or> type = Full"
    and "testScreen_step tc type ev s = (s', Some ans)"
    and "evaluationFails e tc ans"
  shows "appState (ui_app (fst (ui_test e ev ui))) = Test
    \<and> error (ui_app (fst (ui_test e ev ui))) =
        Some ''An error occurred during evaluation. Please try again.''
    \<and> userAnswers (ui_app (fst (ui_test e ev ui))) = Some ans
    \<and> comprehensiveTest (ui_app (fst (ui_test e ev ui))) = Some tc
    \<and> ui_screen (fst (ui_test e ev ui)) = TestScreen (initialTestScreen e type)
    \<and> shownAnswers (fst (ui_test e ev ui)) = Some initialAnswers"
proof -
  let ?r = "handleTestComplete e ans (ui_app ui)"
  note f = handleTestComplete_failure [OF assms(2,3,5,7)]
  have u: "ui_test e ev ui = (rerender e (TestScreen s') (snd ?r) (fst ?r), snd ?r)"
    using assms(1,2,3,6) by (simp add: ui_test_def split: prod.splits)
  have r: "rerender e (TestScreen s') (snd ?r) (fst ?r) =
      \<lparr>ui_app = fst ?r, ui_screen = TestScreen (initialTestScreen e type)\<rparr>"
    apply (rule rerender_Test [where tc = tc])
    using f assms(4) by auto
  show ?thesis
    using f by (simp add: u r shownAnswers_def initialTestScreen_def)
qed

text \<open>
  Claim C7.  After a failure of the evaluation or of the practice plan the workflow is
  back in \<open>test\<close> with the evaluation error message, and the claim has all the answers
  entered so far preserved for resubmission.  \<^verbatim>\<open>handleTestComplete\<close> sets the message
  "An error occurred during evaluation. Please try again." and keeps the submitted
  answers in \<^verbatim>\<open>userAnswers\<close>, but \<^verbatim>\<open>renderContent\<close> hands the test screen neither of them,
  whereas it hands the welcome screen the message of a failed generation.  In the
  example the user has answered the only speaking question of a speaking test and the
  service is unreachable: the workflow is back in \<open>test\<close>, the submitted answers are in
  \<^verbatim>\<open>userAnswers\<close>, and the test screen shown holds the initial empty answers, not the
  submitted ones, so that there is nothing to submit again.
\<close>

theorem C7_evaluation_failure:
  "testScreen_step exampleTest SpeakingOnly NextSpeakingQuestionClick exampleTestScreen =
     (exampleTestScreen\<lparr>answers := exampleSubmitted\<rparr>, Some exampleSubmitted)
   \<and> evaluationFails offline exampleTest exampleSubmitted
   \<and> appState (ui_app (fst (ui_test offline NextSpeakingQuestionClick exampleUI))) = Test
   \<and> error (ui_app (fst (ui_test offline NextSpeakingQuestionClick exampleUI))) =
       Some ''An error occurred during evaluation. Please try again.''
   \<and> userAnswers (ui_app (fst (ui_test offline NextSpeakingQuestionClick exampleUI))) =
       Some exampleSubmitted
   \<and> ui_screen (fst (ui_test offline NextSpeakingQuestionClick exampleUI)) =
       TestScreen (initialTestScreen offline SpeakingOnly)
   \<and> shownAnswers (fst (ui_test offline NextSpeakingQuestionClick exampleUI)) =
       Some initialAnswers
   \<and> shownAnswers (fst (ui_test offline NextSpeakingQuestionClick exampleUI)) \<noteq>
       Some exampleSubmitted"
proof -
  have ty: "SpeakingOnly = WritingOnly \<or> SpeakingOnly = SpeakingOnly \<or> SpeakingOnly = Full"
    by simp
  show ?thesis
    using evaluation_failure_remount [of exampleUI exampleTestScreen exampleTest SpeakingOnly
        NextSpeakingQuestionClick _ exampleSubmitted offline,
        OF exampleUI_fields(1) _ _ _ ty exampleStep offline_evaluationFails]
      offline_evaluationFails [of exampleTest exampleSubmitted] exampleStep
      exampleSubmitted_not_initial exampleSubmitted_not_initial [symmetric]
    by (simp add: exampleUI_fields exampleApp_fields)
qed


section \<open>Properties of the Markdown export\<close>

lemma markdownFeedback_feedback: "occurInOrder [feedback item] (markdownFeedback e item)"
proof -
  have "markdownFeedback e item =
      (''### '' @ criterion item @ '': '' @ toFixed1 e (score item) @ ''\<newline>'')
      @ feedback item @ ''\<newline>\<newline>''"
    by (simp add: markdownFeedback_def)
  then show ?thesis by (simp only: occurInOrder_single)
qed

lemma markdownPracticeItem_exercise: "occurInOrder [exercise item] (markdownPracticeItem item)"
proof -
  have "markdownPracticeItem item =
      (''### '' @ title item @ ''\<newline>\<newline>'' @ ''**Focus Area:** '' @ area item @ ''\<newline>\<newline>''
       @ description item @ ''\<newline>\<newline>'' @ ''**Exercise:**\<newline>'' @ ''```\<newline>'')
      @ exercise item @ ''\<newline>```\<newline>\<newline>''"
    by (simp add: markdownPracticeItem_def)
  then show ?thesis by (simp only: occurInOrder_single)
qed

lemma markdownEvaluation_parts:
  "occurInOrder (toFixed1 e (overallBandScore ev) # map feedback (detailedCriteria (Some ev)))
     (markdownEvaluation e ev)"
proof -
  let ?mid = "''\<newline>\<newline>'' @ ''| Section   | Score |\<newline>'' @ ''|-----------|-------|\<newline>''
     @ concat (map (markdownScoreRow e) (mainScores (Some ev))) @ ''\<newline>''
     @ ''## Examiner's Summary\<newline>\<newline>'' @ summary ev @ ''\<newline>\<newline>''
     @ ''## Detailed Feedback\<newline>\<newline>''"
  let ?fb = "concat (map (markdownFeedback e) (detailedCriteria (Some ev)))"
  have eq: "markdownEvaluation e ev =
      (''## Overall Band Score: '' @ toFixed1 e (overallBandScore ev) @ ?mid) @ ?fb"
    by (simp add: markdownEvaluation_def)
  have 1: "occurInOrder [toFixed1 e (overallBandScore ev)]
      (''## Overall Band Score: '' @ toFixed1 e (overallBandScore ev) @ ?mid)"
    by (rule occurInOrder_single)
  have 2: "occurInOrder (map feedback (detailedCriteria (Some ev))) ?fb"
    by (rule occurInOrder_concat_map) (rule markdownFeedback_feedback)
  show ?thesis
    unfolding eq using occurInOrder_append [OF 1 2] by simp
qed

lemma markdownPracticePlan_parts:
  "occurInOrder (map exercise plan) (markdownPracticePlan plan)"
  unfolding markdownPracticePlan_def
  by (intro occurInOrder_prepend occurInOrder_concat_map markdownPracticeItem_exercise)

lemma render_append: "render (xs @ ys) = render xs @ render ys"
  by (simp add: render_def)

lemma render_Cons: "render (p # ps) = pieceText p @ render ps"
  by (simp add: render_def)

lemma render_Nil: "render [] = []"
  by (simp add: render_def)

lemma render_concat_map: "render (concat (map f xs)) = concat (map (\<lambda>x. render (f x)) xs)"
  by (induction xs) (simp_all add: render_Nil render_append)

lemma written_append: "written fs (xs @ ys) = written fs xs @ written fs ys"
  by (induction fs xs rule: written.induct) simp_all

lemma written_concat_map:
  "written fs (concat (map g xs)) = concat (map (\<lambda>x. written fs (g x)) xs)"
  by (induction xs) (simp_all add: written_append)

lemma concat_map_single: "concat (map (\<lambda>x. [h x]) xs) = map h xs"
  by (induction xs) simp_all

lemma concat_map_Nil: "concat (map (\<lambda>x. []) xs) = []"
  by (induction xs) simp_all

lemma render_scoreRow: "render (scoreRowPieces e s) = markdownScoreRow e s"
  by (simp add: scoreRowPieces_def markdownScoreRow_def render_def)

lemma render_feedback: "render (feedbackPieces e item) = markdownFeedback e item"
  by (simp add: feedbackPieces_def markdownFeedback_def render_def)

lemma render_evaluation: "render (evaluationPieces e ev) = markdownEvaluation e ev"
  by (simp add: evaluationPieces_def markdownEvaluation_def render_append render_Cons
      render_Nil render_concat_map render_scoreRow render_feedback)

lemma render_speaking: "render (speakingPieces ua p) = markdownSpeaking ua p"
  by (cases p) (simp add: speakingPieces_def markdownSpeaking_def render_def)

lemma render_modelAnswers:
  "render (modelAnswersPieces ev ua tc) = markdownModelAnswers ev ua tc"
  by (simp add: modelAnswersPieces_def markdownModelAnswers_def render_append render_Cons
      render_Nil render_concat_map render_speaking)

lemma render_practiceItem: "render (practiceItemPieces item) = markdownPracticeItem item"
  by (simp add: practiceItemPieces_def markdownPracticeItem_def render_def)

lemma render_practicePlan: "render (practicePlanPieces plan) = markdownPracticePlan plan"
  by (simp add: practicePlanPieces_def markdownPracticePlan_def render_Cons
      render_concat_map render_practiceItem)

lemma render_markdownPieces:
  "render (markdownPieces e ev plan ua tc) = handleSaveAsMarkdown e ev plan ua tc"
  by (simp add: markdownPieces_def handleSaveAsMarkdown_def Let_def render_append render_Cons
      render_Nil render_evaluation render_modelAnswers render_practicePlan
      split: option.splits)

text \<open>The values that each part of the export writes for the overall band score, the
  feedback and the exercise, together and one by one.\<close>

lemma written_scoreRow:
  "written [OverallBandScore, Feedback, Exercise] (scoreRowPieces e s) = []"
  "written [OverallBandScore] (scoreRowPieces e s) = []"
  "written [Feedback] (scoreRowPieces e s) = []"
  "written [Exercise] (scoreRowPieces e s) = []"
  by (simp_all add: scoreRowPieces_def)

lemma written_feedback:
  "written [OverallBandScore, Feedback, Exercise] (feedbackPieces e item) = [feedback item]"
  "written [OverallBandScore] (feedbackPieces e item) = []"
  "written [Feedback] (feedbackPieces e item) = [feedback item]"
  "written [Exercise] (feedbackPieces e item) = []"
  by (simp_all add: feedbackPieces_def)

lemma written_evaluation:
  "written [OverallBandScore, Feedback, Exercise] (evaluationPieces e ev) =
     toFixed1 e (overallBandScore ev) # map feedback (detailedCriteria (Some ev))"
  "written [OverallBandScore] (evaluationPieces e ev) = [toFixed1 e (overallBandScore ev)]"
  "written [Feedback] (evaluationPieces e ev) = map feedback (detailedCriteria (Some ev))"
  "written [Exercise] (evaluationPieces e ev) = []"
  by (simp_all add: evaluationPieces_def written_append written_concat_map written_scoreRow
      written_feedback concat_map_single concat_map_Nil)

lemma written_speaking:
  "written [OverallBandScore, Feedback, Exercise] (speakingPieces ua p) = []"
  "written [OverallBandScore] (speakingPieces ua p) = []"
  "written [Feedback] (speakingPieces ua p) = []"
  "written [Exercise] (speakingPieces ua p) = []"
  by (cases p; simp add: speakingPieces_def)+

lemma written_modelAnswers:
  "written [OverallBandScore, Feedback, Exercise] (modelAnswersPieces ev ua tc) = []"
  "written [OverallBandScore] (modelAnswersPieces ev ua tc) = []"
  "written [Feedback] (modelAnswersPieces ev ua tc) = []"
  "written [Exercise] (modelAnswersPieces ev ua tc) = []"
  by (simp_all add: modelAnswersPieces_def written_append written_concat_map written_speaking
      concat_map_Nil)

lemma written_practiceItem:
  "written [OverallBandScore, Feedback, Exercise] (practiceItemPieces item) = [exercise item]"
  "written [OverallBandScore] (practiceItemPieces item) = []"
  "written [Feedback] (practiceItemPieces item) = []"
  "written [Exercise] (practiceItemPieces item) = [exercise item]"
  by (simp_all add: practiceItemPieces_def)

lemma written_practicePlan:
  "written [OverallBandScore, Feedback, Exercise] (practicePlanPieces plan) = map exercise plan"
  "written [OverallBandScore] (practicePlanPieces plan) = []"
  "written [Feedback] (practicePlanPieces plan) = []"
  "written [Exercise] (practicePlanPieces plan) = map exercise plan"
  by (simp_all add: practicePlanPieces_def written_concat_map written_practiceItem
      concat_map_single concat_map_Nil)

lemma written_markdownPieces:
  "written [OverallBandScore, Feedback, Exercise]
       (markdownPieces e (Some ev) (Some plan) ua tc) =
     toFixed1 e (overallBandScore ev) # map feedback (detailedCriteria (Some ev))
       @ map exercise plan"
  "written [OverallBandScore] (markdownPieces e (Some ev) (Some plan) ua tc) =
     [toFixed1 e (overallBandScore ev)]"
  "written [Feedback] (markdownPieces e (Some ev) (Some plan) ua tc) =
     map feedback (detailedCriteria (Some ev))"
  "written [Exercise] (markdownPieces e (Some ev) (Some plan) ua tc) = map exercise plan"
  by (simp_all add: markdownPieces_def Let_def written_append written_evaluation
      written_modelAnswers written_practicePlan)

text \<open>A text with a character that occurs nowhere else in a document occurs in it exactly
  once.\<close>

lemma occurrences_absent:
  assumes "c \<in> set t" and "c \<notin> set xs"
  shows "occurrences t xs = 0"
  using assms(2)
proof (induction xs)
  case Nil
  then show ?case using assms(1) by auto
next
  case (Cons x xs)
  have "\<not> prefix t (x # xs)"
  proof
    assume "prefix t (x # xs)"
    then have "set t \<subseteq> set (x # xs)" by (rule set_mono_prefix)
    then show False using assms(1) Cons.prems by blast
  qed
  then show ?case using Cons by simp
qed

lemma first_occurrence:
  "c \<notin> set xs \<Longrightarrow> c \<notin> set xs' \<Longrightarrow> xs @ c # ys = xs' @ c # ys' \<Longrightarrow> xs = xs'"
proof (induction xs arbitrary: xs')
  case Nil
  then show ?case by (cases xs') auto
next
  case (Cons x xs)
  then show ?case by (cases xs') auto
qed

lemma no_prefix_shifted:
  assumes "c \<in> set t" and "c \<notin> set a" and "a \<noteq> []"
  shows "\<not> prefix t (a @ t @ b)"
proof
  assume "prefix t (a @ t @ b)"
  then obtain r where r: "a @ t @ b = t @ r"
    by (auto simp: prefix_def)
  obtain t1 t2 where t: "t = t1 @ c # t2" and t1: "c \<notin> set t1"
    using assms(1) by (auto dest: split_list_first)
  have "(a @ t1) @ c # (t2 @ b) = t1 @ c # (t2 @ r)"
    using r t by simp
  moreover have "c \<notin> set (a @ t1)"
    using assms(2) t1 by simp
  ultimately have "a @ t1 = t1"
    using t1 by (rule first_occurrence [rotated 2])
  then show False using assms(3) by simp
qed

lemma occurrences_skip:
  assumes "c \<in> set t" and "c \<notin> set a"
  shows "occurrences t (a @ t @ b) = occurrences t (t @ b)"
  using assms(2)
proof (induction a)
  case Nil
  then show ?case by simp
next
  case (Cons x a)
  have "\<not> prefix t ((x # a) @ t @ b)"
    using assms(1) Cons.prems by (intro no_prefix_shifted) auto
  then show ?case using Cons by simp
qed

lemma no_prefix_inside:
  assumes "c \<in> set t" and "c \<notin> set b" and "t = p @ s" and "p \<noteq> []"
  shows "\<not> prefix t (s @ b)"
proof
  assume "prefix t (s @ b)"
  then obtain r where r: "s @ b = t @ r"
    by (auto simp: prefix_def)
  obtain u1 u2 where t: "t = u1 @ c # u2" and u2: "c \<notin> set u2"
    using assms(1) by (auto dest: split_list_last)
  have "u1 @ c # (u2 @ b) = t @ b"
    using t by simp
  also have "\<dots> = p @ (s @ b)"
    using assms(3) by simp
  also have "\<dots> = (p @ u1) @ c # (u2 @ r)"
    using r t by simp
  finally have eq: "u1 @ c # (u2 @ b) = (p @ u1) @ c # (u2 @ r)" .
  have "drop (Suc (length u1)) (u1 @ c # (u2 @ b)) = u2 @ b"
    by simp
  moreover have "drop (Suc (length u1)) ((p @ u1) @ c # (u2 @ r))
      = drop (Suc (length u1)) (p @ u1) @ c # (u2 @ r)"
    using assms(4) by (cases p) simp_all
  ultimately have "u2 @ b = drop (Suc (length u1)) (p @ u1) @ c # (u2 @ r)"
    using eq by simp
  then have "c \<in> set (u2 @ b)"
    by (metis in_set_conv_decomp)
  then show False using u2 assms(2) by simp
qed

lemma occurrences_inside:
  assumes "c \<in> set t" and "c \<notin> set b"
  shows "t = p @ s \<Longrightarrow> p \<noteq> [] \<Longrightarrow> occurrences t (s @ b) = 0"
proof (induction s arbitrary: p)
  case Nil
  then show ?case using occurrences_absent [OF assms] by simp
next
  case (Cons y s)
  have "\<not> prefix t ((y # s) @ b)"
    using assms Cons.prems by (rule no_prefix_inside)
  moreover have "occurrences t (s @ b) = 0"
    using Cons.prems by (intro Cons.IH [of "p @ [y]"]) simp_all
  ultimately show ?case by simp
qed

lemma occurrences_marked:
  assumes "c \<in> set t" and "c \<notin> set a" and "c \<notin> set b"
  shows "occurrences t (a @ t @ b) = 1"
proof -
  obtain x s where t: "t = x # s"
    using assms(1) by (cases t) auto
  have "occurrences t (s @ b) = 0"
    using assms(1,3) t by (intro occurrences_inside [of c t b "[x]" s]) simp_all
  then have "occurrences t (t @ b) = 1"
    using t by simp
  then show ?thesis
    using occurrences_skip [OF assms(1,2)] by simp
qed

lemma render_nth:
  "k < length ps \<Longrightarrow>
     render ps = render (take k ps) @ pieceText (ps ! k) @ render (drop (Suc k) ps)"
  by (metis id_take_nth_drop render_append render_Cons)

lemma occurrences_piece:
  assumes "k < length ps" and "c \<in> set (pieceText (ps ! k))"
    and "c \<notin> set (render (others k ps))"
  shows "occurrences (pieceText (ps ! k)) (render ps) = 1"
proof -
  have "c \<notin> set (render (take k ps))" and "c \<notin> set (render (drop (Suc k) ps))"
    using assms(3) by (simp_all add: others_def render_append)
  then show ?thesis
    unfolding render_nth [OF assms(1)] using assms(2) by (intro occurrences_marked)
qed

lemma handleSaveAsMarkdown_parts:
  "occurInOrder
     (toFixed1 e (overallBandScore ev) # map feedback (detailedCriteria (Some ev))
        @ map exercise plan)
     (handleSaveAsMarkdown e (Some ev) (Some plan) ua tc)"
proof -
  have eq: "handleSaveAsMarkdown e (Some ev) (Some plan) ua tc =
      ''# IELTS Evaluation Report\<newline>\<newline>''
      @ (markdownEvaluation e ev @ markdownModelAnswers ev ua tc) @ markdownPracticePlan plan"
    by (simp add: handleSaveAsMarkdown_def Let_def)
  have "occurInOrder
     ((toFixed1 e (overallBandScore ev) # map feedback (detailedCriteria (Some ev)))
        @ map exercise plan)
     ((markdownEvaluation e ev @ markdownModelAnswers ev ua tc) @ markdownPracticePlan plan)"
    by (intro occurInOrder_append occurInOrder_extend markdownEvaluation_parts
        markdownPracticePlan_parts)
  then have "occurInOrder
     ((toFixed1 e (overallBandScore ev) # map feedback (detailedCriteria (Some ev)))
        @ map exercise plan)
     (''# IELTS Evaluation Report\<newline>\<newline>''
      @ (markdownEvaluation e ev @ markdownModelAnswers ev ua tc) @ markdownPracticePlan plan)"
    by (rule occurInOrder_prepend)
  then show ?thesis
    unfolding eq by (simp only: append_Cons)
qed

lemma examplePieces_exercise:
  "67 < length (markdownPieces exampleEnv (Some exampleEvaluation) (Some examplePlan)
      exampleSubmitted exampleTest)"
  "markdownPieces exampleEnv (Some exampleEvaluation) (Some examplePlan)
      exampleSubmitted exampleTest ! 67 =
     Written Exercise ''Talk for one minute without stopping.''"
  "CHR ''f'' \<notin> set (render (others 67 (markdownPieces exampleEnv (Some exampleEvaluation)
      (Some examplePlan) exampleSubmitted exampleTest)))"
  by (simp_all add: markdownPieces_def evaluationPieces_def modelAnswersPieces_def
      practicePlanPieces_def practiceItemPieces_def speakingPieces_def feedbackPieces_def
      scoreRowPieces_def mainScores_def detailedCriteria_def mainSkills_def
      exampleEvaluation_def examplePlan_def exampleSubmitted_def exampleTest_def
      initialAnswers_def orElse_def elemAt_def enumerate_eq_zip toFixed1_example Let_def
      render_def others_def)

text \<open>
  Claim C9, as amended.  With an evaluation and a practice plan present, the exported
  document is the text of the pieces that the export appends, and among these pieces the
  overall band score (with one decimal) is written exactly once, then the feedback of
  every detailed criterion exactly once, in the order of the evaluation, then the
  exercise of every practice item exactly once, in the order of the plan.  These texts
  occur in the document at places of their own, one after the other.  A value written
  that has a character which no other piece of the document has occurs in the document
  exactly once.
\<close>

theorem C9_markdown:
  "handleSaveAsMarkdown e (Some ev) (Some plan) ua tc =
     render (markdownPieces e (Some ev) (Some plan) ua tc)
   \<and> written [OverallBandScore, Feedback, Exercise]
         (markdownPieces e (Some ev) (Some plan) ua tc) =
       toFixed1 e (overallBandScore ev) # map feedback (detailedCriteria (Some ev))
         @ map exercise plan
   \<and> written [OverallBandScore] (markdownPieces e (Some ev) (Some plan) ua tc) =
       [toFixed1 e (overallBandScore ev)]
   \<and> written [Feedback] (markdownPieces e (Some ev) (Some plan) ua tc) =
       map feedback (detailedCriteria (Some ev))
   \<and> written [Exercise] (markdownPieces e (Some ev) (Some plan) ua tc) = map exercise plan
   \<and> occurInOrder
       (toFixed1 e (overallBandScore ev) # map feedback (detailedCriteria (Some ev))
          @ map exercise plan)
       (handleSaveAsMarkdown e (Some ev) (Some plan) ua tc)
   \<and> (k < length (markdownPieces e (Some ev) (Some plan) ua tc)
        \<and> markdownPieces e (Some ev) (Some plan) ua tc ! k = Written f t
        \<and> c \<in> set t
        \<and> c \<notin> set (render (others k (markdownPieces e (Some ev) (Some plan) ua tc)))
      \<longrightarrow> occurrences t (handleSaveAsMarkdown e (Some ev) (Some plan) ua tc) = 1)"
proof (intro conjI impI)
  let ?ps = "markdownPieces e (Some ev) (Some plan) ua tc"
  show "handleSaveAsMarkdown e (Some ev) (Some plan) ua tc = render ?ps"
    by (simp only: render_markdownPieces)
  show "written [OverallBandScore, Feedback, Exercise] ?ps =
      toFixed1 e (overallBandScore ev) # map feedback (detailedCriteria (Some ev))
        @ map exercise plan"
    by (rule written_markdownPieces)
  show "written [OverallBandScore] ?ps = [toFixed1 e (overallBandScore ev)]"
    by (rule written_markdownPieces)
  show "written [Feedback] ?ps = map feedback (detailedCriteria (Some ev))"
    by (rule written_markdownPieces)
  show "written [Exercise] ?ps = map exercise plan"
    by (rule written_markdownPieces)
  show "occurInOrder
       (toFixed1 e (overallBandScore ev) # map feedback (detailedCriteria (Some ev))
          @ map exercise plan)
       (handleSaveAsMarkdown e (Some ev) (Some plan) ua tc)"
    by (rule handleSaveAsMarkdown_parts)
  assume h: "k < length ?ps \<and> ?ps ! k = Written f t \<and> c \<in> set t
      \<and> c \<notin> set (render (others k ?ps))"
  then have "occurrences (pieceText (?ps ! k)) (render ?ps) = 1"
    by (intro occurrences_piece [of k ?ps c]) simp_all
  then show "occurrences t (handleSaveAsMarkdown e (Some ev) (Some plan) ua tc) = 1"
    using h by (simp add: render_markdownPieces)
qed

theorem C9_markdown_witness:
  "written [OverallBandScore, Feedback, Exercise] (markdownPieces exampleEnv
       (Some exampleEvaluation) (Some examplePlan) exampleSubmitted exampleTest) =
       [''6.5'', ''Pause less between ideas.'', ''Talk for one minute without stopping.'']
   \<and> written [OverallBandScore] (markdownPieces exampleEnv (Some exampleEvaluation)
       (Some examplePlan) exampleSubmitted exampleTest) = [''6.5'']
   \<and> written [Feedback] (markdownPieces exampleEnv (Some exampleEvaluation)
       (Some examplePlan) exampleSubmitted exampleTest) = [''Pause less between ideas.'']
   \<and> written [Exercise] (markdownPieces exampleEnv (Some exampleEvaluation)
       (Some examplePlan) exampleSubmitted exampleTest) =
       [''Talk for one minute without stopping.'']
   \<and> occurInOrder
       [''6.5'', ''Pause less between ideas.'', ''Talk for one minute without stopping.'']
       (handleSaveAsMarkdown exampleEnv (Some exampleEvaluation) (Some examplePlan)
          exampleSubmitted exampleTest)
   \<and> occurrences ''Talk for one minute without stopping.''
       (handleSaveAsMarkdown exampleEnv (Some exampleEvaluation) (Some examplePlan)
          exampleSubmitted exampleTest) = 1"
proof -
  have o: "overallBandScore exampleEvaluation = 6.5"
    by (simp add: exampleEvaluation_def)
  have v: "toFixed1 exampleEnv (overallBandScore exampleEvaluation) = ''6.5''"
    "map feedback (detailedCriteria (Some exampleEvaluation)) = [''Pause less between ideas.'']"
    "map exercise examplePlan = [''Talk for one minute without stopping.'']"
    unfolding exampleDetailed o by (simp_all add: examplePlan_def toFixed1_example)
  have f: "CHR ''f'' \<in> set ''Talk for one minute without stopping.''"
    by simp
  note inst = C9_markdown [of exampleEnv exampleEvaluation examplePlan exampleSubmitted
      exampleTest 67 Exercise "''Talk for one minute without stopping.''" "CHR ''f''",
      unfolded v]
  have once: "occurrences ''Talk for one minute without stopping.''
       (handleSaveAsMarkdown exampleEnv (Some exampleEvaluation) (Some examplePlan)
          exampleSubmitted exampleTest) = 1"
    using inst examplePieces_exercise f by blast
  have order: "occurInOrder
       (''6.5'' # [''Pause less between ideas.''] @ [''Talk for one minute without stopping.''])
       (handleSaveAsMarkdown exampleEnv (Some exampleEvaluation) (Some examplePlan)
          exampleSubmitted exampleTest)"
    using inst by blast
  show ?thesis
    using inst once order by (simp del: occurInOrder.simps occurrences.simps)
qed

text \<open>
  The claim as it was stated has each of these texts occur exactly once.  In the example
  the overall band score is 6.5, as are the scores of two criteria, and the text of the
  overall band score occurs three times in the document.
\<close>

theorem C9_exactly_once_counterexample:
  "toFixed1 exampleEnv (overallBandScore exampleEvaluation) = ''6.5''
   \<and> occurrences ''6.5''
        (handleSaveAsMarkdown exampleEnv (Some exampleEvaluation) (Some examplePlan)
           exampleSubmitted exampleTest) = 3"
proof -
  have o: "overallBandScore exampleEvaluation = 6.5"
    by (simp add: exampleEvaluation_def)
  have "occurrences ''6.5''
        (handleSaveAsMarkdown exampleEnv (Some exampleEvaluation) (Some examplePlan)
           exampleSubmitted exampleTest) = 3"
    by (simp add: handleSaveAsMarkdown_def markdownEvaluation_def markdownModelAnswers_def
      markdownPracticePlan_def markdownPracticeItem_def markdownSpeaking_def
      markdownFeedback_def markdownScoreRow_def mainScores_def detailedCriteria_def
      mainSkills_def exampleEvaluation_def examplePlan_def exampleSubmitted_def
      exampleTest_def initialAnswers_def orElse_def elemAt_def enumerate_eq_zip
      toFixed1_example Let_def)
  then show ?thesis
    using toFixed1_example by (simp add: o)
qed

end
